(* ===== verification/Prelude.thy ===== *)
theory Prelude
  imports Complex_Main "HOL-Library.Word"
begin

text \<open>
  Shared vocabulary of the development: the types that name the program's data
  (window handles, window rectangles), the Python and Qt primitives the program
  relies on, written out so that their failure cases are explicit, and the
  generic lemmas on them that the component theories use.
  \<^item> \<open>py_int\<close> is Python's \<open>int()\<close> applied to a float: truncation towards zero;
  \<^item> \<open>py_getitem\<close>, \<open>py_setitem\<close> are \<open>lst[i]\<close> and \<open>lst[i] = v\<close> for a
    non-negative index, raising \<open>IndexError\<close> out of range;
  \<^item> \<open>qBound\<close> is Qt's clamp, which \<open>QSlider.setRange\<close> and \<open>setValue\<close> apply
    to every value a slider holds.
\<close>

named_theorems model_simps "evaluation rules of the model's operations"

datatype py_error = IndexError

type_synonym hwnd = int

text \<open>\<open>win32gui.GetWindowRect\<close> returns \<open>(left, top, right, bottom)\<close>.\<close>

type_synonym rect = "int \<times> int \<times> int \<times> int"

definition py_int :: "real \<Rightarrow> int" where
  "py_int x = (if 0 \<le> x then \<lfloor>x\<rfloor> else \<lceil>x\<rceil>)"

definition py_getitem :: "'a list \<Rightarrow> nat \<Rightarrow> py_error + 'a" where
  "py_getitem xs i = (if i < length xs then Inr (xs ! i) else Inl IndexError)"

definition py_setitem :: "'a list \<Rightarrow> nat \<Rightarrow> 'a \<Rightarrow> py_error + 'a list" where
  "py_setitem xs i v = (if i < length xs then Inr (xs[i := v]) else Inl IndexError)"

text \<open>A Python loop that evaluates one expression per element and stops at the first
  exception it raises.\<close>

fun py_all :: "('e + 'a) list \<Rightarrow> 'e + 'a list" where
  "py_all [] = Inr []"
| "py_all (Inl e # _) = Inl e"
| "py_all (Inr x # rs) = (case py_all rs of Inl e \<Rightarrow> Inl e | Inr xs \<Rightarrow> Inr (x # xs))"

definition qBound :: "int \<Rightarrow> int \<Rightarrow> int \<Rightarrow> int" where
  "qBound lo v hi = max lo (min v hi)"

subsection \<open>Truncation towards zero\<close>

lemma py_int_nonneg [simp]: "0 \<le> x \<Longrightarrow> py_int x = \<lfloor>x\<rfloor>"
  by (simp add: py_int_def)

lemma py_int_neg [simp]: "x < 0 \<Longrightarrow> py_int x = \<lceil>x\<rceil>"
  by (simp add: py_int_def)

lemma py_int_of_int [simp]: "py_int (of_int n) = n"
  by (simp add: py_int_def)

lemma py_int_abs_le: "\<bar>real_of_int (py_int x)\<bar> \<le> \<bar>x\<bar>"
  by (simp add: py_int_def)

lemma py_int_abs_gt: "\<bar>x\<bar> < \<bar>real_of_int (py_int x)\<bar> + 1"
  by (simp add: py_int_def) linarith

lemma py_int_eqI:
  assumes "0 \<le> x" "of_int n \<le> x" "x < of_int n + 1"
  shows "py_int x = n"
  using assms by (simp add: floor_eq_iff)

lemma py_int_eq_negI:
  assumes "x < 0" "of_int n - 1 < x" "x \<le> of_int n"
  shows "py_int x = n"
  using assms by (simp add: ceiling_eq_iff)

subsection \<open>Python list access\<close>

lemma py_getitem_in [simp, model_simps]: "i < length xs \<Longrightarrow> py_getitem xs i = Inr (xs ! i)"
  by (simp add: py_getitem_def)

lemma py_getitem_out [simp, model_simps]: "length xs \<le> i \<Longrightarrow> py_getitem xs i = Inl IndexError"
  by (simp add: py_getitem_def)

lemma py_setitem_in [simp, model_simps]:
  "i < length xs \<Longrightarrow> py_setitem xs i v = Inr (xs[i := v])"
  by (simp add: py_setitem_def)

lemma py_setitem_out [simp, model_simps]:
  "length xs \<le> i \<Longrightarrow> py_setitem xs i v = Inl IndexError"
  by (simp add: py_setitem_def)

lemma py_all_map_Inr [simp]: "py_all (map (\<lambda>x. Inr (f x)) xs) = Inr (map f xs)"
  by (induction xs) simp_all

lemma py_all_map_getitem [simp]:
  assumes "n \<le> length xs"
  shows "py_all (map (py_getitem xs) [0..<n]) = Inr (take n xs)"
proof -
  have "map (py_getitem xs) [0..<n] = map (\<lambda>i. Inr (xs ! i)) [0..<n]"
    using assms by (intro map_cong) auto
  moreover have "map (\<lambda>i. xs ! i) [0..<n] = take n xs"
    using assms by (simp add: list_eq_iff_nth_eq)
  ultimately show ?thesis
    by (metis py_all_map_Inr)
qed

subsection \<open>Qt's clamp\<close>

lemma qBound_range: "lo \<le> hi \<Longrightarrow> lo \<le> qBound lo v hi \<and> qBound lo v hi \<le> hi"
  by (simp add: qBound_def)

lemma qBound_id [simp]: "lo \<le> v \<Longrightarrow> v \<le> hi \<Longrightarrow> qBound lo v hi = v"
  by (simp add: qBound_def)

end
