(* ===== verification/Settings.thy ===== *)
theory Settings
  imports Prelude
begin

text \<open>
  The Settings Store: the module-level globals of src/dhonvtool.py (lines 10--20)
  that the settings handlers write and \<open>paintEvent\<close> reads. A \<open>QColor\<close> is a
  record of its four channels; \<open>settings\<close> gathers the eight overlay globals.
  \<open>settings_wf\<close> is the range invariant the settings dialogs maintain: every
  channel and opacity in \<open>[0, 255]\<close>, twelve visibility flags, and the slider
  ranges of the dialogs for the three sizes.
\<close>

record qcolor =
  red :: int
  green :: int
  blue :: int
  alpha :: int

text \<open>\<open>QColor(r, g, b, a = 255)\<close> and \<open>QColor.setAlpha\<close>.\<close>

definition QColor :: "int \<Rightarrow> int \<Rightarrow> int \<Rightarrow> int \<Rightarrow> qcolor" where
  "QColor r g b a = \<lparr>red = r, green = g, blue = b, alpha = a\<rparr>"

definition setAlpha :: "qcolor \<Rightarrow> int \<Rightarrow> qcolor" where
  "setAlpha c a = c\<lparr>alpha := a\<rparr>"

record settings =
  aim_color :: qcolor
  point_color :: qcolor
  point_opacity :: int
  aim_opacity :: int
  point_visibility :: "bool list"
  point_size :: int
  aim_length :: int
  aim_thickness :: int

definition default_settings :: settings where
  "default_settings =
     \<lparr>aim_color = QColor 0 0 255 255,
      point_color = QColor 0 255 0 255,
      point_opacity = 255,
      aim_opacity = 255,
      point_visibility = replicate 12 True,
      point_size = 5,
      aim_length = 20,
      aim_thickness = 2\<rparr>"

definition channel_ok :: "int \<Rightarrow> bool" where
  "channel_ok v \<longleftrightarrow> 0 \<le> v \<and> v \<le> 255"

definition color_ok :: "qcolor \<Rightarrow> bool" where
  "color_ok c \<longleftrightarrow> channel_ok (red c) \<and> channel_ok (green c) \<and> channel_ok (blue c)
     \<and> channel_ok (alpha c)"

definition settings_wf :: "settings \<Rightarrow> bool" where
  "settings_wf s \<longleftrightarrow>
     color_ok (aim_color s) \<and> color_ok (point_color s)
     \<and> channel_ok (point_opacity s) \<and> channel_ok (aim_opacity s)
     \<and> length (point_visibility s) = 12
     \<and> 1 \<le> point_size s \<and> point_size s \<le> 20
     \<and> 5 \<le> aim_length s \<and> aim_length s \<le> 100
     \<and> 1 \<le> aim_thickness s \<and> aim_thickness s \<le> 10"

lemma QColor_fields [simp, model_simps]:
  "red (QColor r g b a) = r" "green (QColor r g b a) = g"
  "blue (QColor r g b a) = b" "alpha (QColor r g b a) = a"
  by (simp_all add: QColor_def)

lemma setAlpha_fields [simp, model_simps]:
  "red (setAlpha c a) = red c" "green (setAlpha c a) = green c"
  "blue (setAlpha c a) = blue c" "alpha (setAlpha c a) = a"
  by (simp_all add: setAlpha_def)

lemma setAlpha_idem [simp]: "setAlpha (setAlpha c a) b = setAlpha c b"
  by (simp add: setAlpha_def)

lemma color_ok_setAlphaI [intro]: "color_ok c \<Longrightarrow> channel_ok a \<Longrightarrow> color_ok (setAlpha c a)"
  by (simp add: color_ok_def)

lemma channel_ok_qBound [intro, simp]: "channel_ok (qBound 0 v 255)"
  by (simp add: channel_ok_def qBound_def)

lemma default_settings_fields [simp, model_simps]:
  "aim_color default_settings = QColor 0 0 255 255"
  "point_color default_settings = QColor 0 255 0 255"
  "point_opacity default_settings = 255"
  "aim_opacity default_settings = 255"
  "point_visibility default_settings = replicate 12 True"
  "point_size default_settings = 5"
  "aim_length default_settings = 20"
  "aim_thickness default_settings = 2"
  by (simp_all add: default_settings_def)

end
