(* ===== verification/SettingsUI.thy ===== *)
theory SettingsUI
  imports Settings
begin

text \<open>
  The Settings UI of src/dhonvtool.py (lines 93--271): the three dialogs that
  \<open>open_settings\<close> offers, the sliders and check boxes they build from the current
  globals, and the change handlers those controls are connected to. A handler
  returns the new settings and whether it called \<open>red_border.update()\<close>, the
  repaint request of the overlay. \<open>handle_ui\<close> is the dispatch of one control
  event to its handler, the slider value clamped to the range its dialog set.
  The lemmas show that the handlers keep \<open>settings_wf\<close>, that every applied change
  requests a repaint and a cancelled colour dialog changes nothing, and that no
  handler ever writes \<open>aim_opacity\<close>.
\<close>

subsection \<open>Dialogs\<close>

text \<open>A \<open>QSlider\<close> after \<open>setRange(lo, hi)\<close> and \<open>setValue(v)\<close>.\<close>

record qslider =
  slider_min :: int
  slider_max :: int
  slider_value :: int

definition QSlider :: "int \<Rightarrow> int \<Rightarrow> int \<Rightarrow> qslider" where
  "QSlider lo hi v = \<lparr>slider_min = lo, slider_max = hi, slider_value = qBound lo v hi\<rparr>"

text \<open>The value a slider reports through \<open>valueChanged\<close> when the user drags it to \<open>v\<close>.\<close>

definition slider_moved :: "qslider \<Rightarrow> int \<Rightarrow> int" where
  "slider_moved sl v = qBound (slider_min sl) v (slider_max sl)"

datatype settings_panel = AimPanel | PointPanel | ArrangementPanel

definition open_settings :: "settings_panel list" where
  "open_settings = [AimPanel, PointPanel, ArrangementPanel]"

record aim_dialog =
  aim_length_slider :: qslider
  aim_thickness_slider :: qslider
  aim_opacity_slider :: qslider

definition open_aim_settings :: "settings \<Rightarrow> aim_dialog" where
  "open_aim_settings s =
     \<lparr>aim_length_slider = QSlider 5 100 (aim_length s),
      aim_thickness_slider = QSlider 1 10 (aim_thickness s),
      aim_opacity_slider = QSlider 0 255 (aim_opacity s)\<rparr>"

record point_dialog =
  point_size_slider :: qslider
  point_opacity_slider :: qslider

definition open_point_settings :: "settings \<Rightarrow> point_dialog" where
  "open_point_settings s =
     \<lparr>point_size_slider = QSlider 1 20 (point_size s),
      point_opacity_slider = QSlider 0 255 (point_opacity s)\<rparr>"

text \<open>
  The arrangement dialog builds one check box per index \<open>i\<close> of \<open>range(12)\<close>,
  labelled with the hour \<open>i + 1\<close> and checked as \<open>point_visibility[i]\<close>.
\<close>

record point_checkbox =
  checkbox_index :: nat
  checkbox_hour :: nat
  checkbox_checked :: bool

definition open_point_arrangement :: "settings \<Rightarrow> py_error + point_checkbox list" where
  "open_point_arrangement s =
     py_all (map (\<lambda>i. case py_getitem (point_visibility s) i of
                        Inl e \<Rightarrow> Inl e
                      | Inr b \<Rightarrow> Inr \<lparr>checkbox_index = i, checkbox_hour = i + 1,
                                     checkbox_checked = b\<rparr>)
             [0..<12])"

subsection \<open>Handlers\<close>

definition change_aim_length :: "int \<Rightarrow> settings \<Rightarrow> settings \<times> bool" where
  "change_aim_length value s = (s\<lparr>aim_length := value\<rparr>, True)"

definition change_aim_thickness :: "int \<Rightarrow> settings \<Rightarrow> settings \<times> bool" where
  "change_aim_thickness value s = (s\<lparr>aim_thickness := value\<rparr>, True)"

definition change_point_size :: "int \<Rightarrow> settings \<Rightarrow> settings \<times> bool" where
  "change_point_size value s = (s\<lparr>point_size := value\<rparr>, True)"

text \<open>
  The colour handlers open \<open>QColorDialog.getColor\<close>; its result is the argument:
  \<open>None\<close> is the invalid colour the dialog returns when it is cancelled.
\<close>

definition change_aim_color :: "qcolor option \<Rightarrow> settings \<Rightarrow> settings \<times> bool" where
  "change_aim_color color s =
     (case color of None \<Rightarrow> (s, False) | Some c \<Rightarrow> (s\<lparr>aim_color := c\<rparr>, True))"

definition change_point_color :: "qcolor option \<Rightarrow> settings \<Rightarrow> settings \<times> bool" where
  "change_point_color color s =
     (case color of None \<Rightarrow> (s, False) | Some c \<Rightarrow> (s\<lparr>point_color := c\<rparr>, True))"

text \<open>\<open>change_aim_opacity\<close> sets the alpha of \<open>aim_color\<close> in place; the global
  \<open>aim_opacity\<close> it declares is never assigned.\<close>

definition change_aim_opacity :: "int \<Rightarrow> settings \<Rightarrow> settings \<times> bool" where
  "change_aim_opacity value s = (s\<lparr>aim_color := setAlpha (aim_color s) value\<rparr>, True)"

definition change_point_opacity :: "int \<Rightarrow> settings \<Rightarrow> settings \<times> bool" where
  "change_point_opacity value s = (s\<lparr>point_opacity := value\<rparr>, True)"

definition toggle_point_visibility ::
  "nat \<Rightarrow> bool \<Rightarrow> settings \<Rightarrow> py_error + settings \<times> bool" where
  "toggle_point_visibility index state s =
     (case py_setitem (point_visibility s) index state of
        Inl e \<Rightarrow> Inl e
      | Inr vis \<Rightarrow> Inr (s\<lparr>point_visibility := vis\<rparr>, True))"

subsection \<open>Dispatch of control events\<close>

datatype ui_event =
    AimColorPicked "qcolor option"
  | AimLengthMoved int
  | AimThicknessMoved int
  | AimOpacityMoved int
  | PointColorPicked "qcolor option"
  | PointSizeMoved int
  | PointOpacityMoved int
  | PointToggled nat bool

fun ui_panel :: "ui_event \<Rightarrow> settings_panel" where
  "ui_panel (PointColorPicked _) = PointPanel"
| "ui_panel (PointSizeMoved _) = PointPanel"
| "ui_panel (PointOpacityMoved _) = PointPanel"
| "ui_panel (PointToggled _ _) = ArrangementPanel"
| "ui_panel _ = AimPanel"

text \<open>
  The events the dialogs can emit: a check box index comes from \<open>range(12)\<close>, and
  a colour that \<open>QColorDialog.getColor\<close> returns as valid has its channels in
  \<open>[0, 255]\<close>.
\<close>

fun ui_event_ok :: "ui_event \<Rightarrow> bool" where
  "ui_event_ok (PointToggled i _) = (i < 12)"
| "ui_event_ok (AimColorPicked c) = pred_option color_ok c"
| "ui_event_ok (PointColorPicked c) = pred_option color_ok c"
| "ui_event_ok _ = True"

fun color_cancelled :: "ui_event \<Rightarrow> bool" where
  "color_cancelled (AimColorPicked c) = (c = None)"
| "color_cancelled (PointColorPicked c) = (c = None)"
| "color_cancelled _ = False"

fun handle_ui :: "ui_event \<Rightarrow> settings \<Rightarrow> py_error + settings \<times> bool" where
  "handle_ui (AimColorPicked c) s = Inr (change_aim_color c s)"
| "handle_ui (AimLengthMoved v) s =
     Inr (change_aim_length (slider_moved (aim_length_slider (open_aim_settings s)) v) s)"
| "handle_ui (AimThicknessMoved v) s =
     Inr (change_aim_thickness (slider_moved (aim_thickness_slider (open_aim_settings s)) v) s)"
| "handle_ui (AimOpacityMoved v) s =
     Inr (change_aim_opacity (slider_moved (aim_opacity_slider (open_aim_settings s)) v) s)"
| "handle_ui (PointColorPicked c) s = Inr (change_point_color c s)"
| "handle_ui (PointSizeMoved v) s =
     Inr (change_point_size (slider_moved (point_size_slider (open_point_settings s)) v) s)"
| "handle_ui (PointOpacityMoved v) s =
     Inr (change_point_opacity (slider_moved (point_opacity_slider (open_point_settings s)) v) s)"
| "handle_ui (PointToggled i b) s = toggle_point_visibility i b s"

lemmas handler_defs [model_simps] =
  change_aim_length_def change_aim_thickness_def change_point_size_def
  change_aim_color_def change_point_color_def change_aim_opacity_def
  change_point_opacity_def

lemma slider_moved_QSlider [simp, model_simps]:
  "slider_moved (QSlider lo hi v) w = qBound lo w hi"
  by (simp add: slider_moved_def QSlider_def)

lemma dialog_sliders [simp, model_simps]:
  "aim_length_slider (open_aim_settings s) = QSlider 5 100 (aim_length s)"
  "aim_thickness_slider (open_aim_settings s) = QSlider 1 10 (aim_thickness s)"
  "aim_opacity_slider (open_aim_settings s) = QSlider 0 255 (aim_opacity s)"
  "point_size_slider (open_point_settings s) = QSlider 1 20 (point_size s)"
  "point_opacity_slider (open_point_settings s) = QSlider 0 255 (point_opacity s)"
  by (simp_all add: open_aim_settings_def open_point_settings_def)

subsection \<open>Properties of the handlers\<close>

lemma toggle_point_visibility_Inr:
  "toggle_point_visibility i b s = Inr (s', r) \<longleftrightarrow>
     i < length (point_visibility s) \<and> r \<and> s' = s\<lparr>point_visibility := (point_visibility s)[i := b]\<rparr>"
  by (auto simp: toggle_point_visibility_def py_setitem_def)


lemma handle_ui_no_error:
  assumes "settings_wf s" and "ui_event_ok e"
  shows "\<exists>x. handle_ui e s = Inr x"
  using assms
  by (cases e) (auto simp: settings_wf_def toggle_point_visibility_def py_setitem_def)

lemma handle_ui_keeps_wf:
  assumes "settings_wf s" and "ui_event_ok e" and "handle_ui e s = Inr (s', r)"
  shows "settings_wf s'"
  using assms
  by (cases e) (auto simp: settings_wf_def handler_defs toggle_point_visibility_def py_setitem_def
                   qBound_def channel_ok_def color_ok_def split: option.splits if_splits)

text \<open>
  C14. On every event its dialogs can emit, a handler never raises and leaves the
  settings within the invariant: slider values are clamped to the dialogs'
  ranges, colours come valid from the colour dialog, indices from \<open>range(12)\<close>.
\<close>

theorem handle_ui_wf:
  assumes "settings_wf s" and "ui_event_ok e"
  shows "\<exists>s' r. handle_ui e s = Inr (s', r) \<and> settings_wf s'"
proof -
  obtain s' r where "handle_ui e s = Inr (s', r)"
    using handle_ui_no_error [OF assms] by auto
  with handle_ui_keeps_wf [OF assms] show ?thesis by blast
qed

theorem handle_ui_wf_witness:
  "\<exists>s' r. handle_ui (AimLengthMoved 500) default_settings = Inr (s', r) \<and> settings_wf s'"
  by (rule handle_ui_wf) (simp_all add: settings_wf_def color_ok_def channel_ok_def)

text \<open>
  C13. Every handler that changes a setting asks the overlay to repaint; a
  cancelled colour dialog neither changes the settings nor asks for a repaint.
\<close>

theorem handle_ui_repaint:
  assumes "handle_ui e s = Inr (s', r)"
  shows "r = (\<not> color_cancelled e) \<and> (color_cancelled e \<longrightarrow> s' = s)"
  using assms
  by (cases e) (auto simp: handler_defs toggle_point_visibility_def py_setitem_def
                   split: option.splits if_splits)

theorem handle_ui_repaint_witness:
  "handle_ui (AimColorPicked None) default_settings = Inr (default_settings, False)
   \<and> False = (\<not> color_cancelled (AimColorPicked None))"
proof -
  have h: "handle_ui (AimColorPicked None) default_settings = Inr (default_settings, False)"
    by (simp add: handler_defs)
  with handle_ui_repaint [OF h] show ?thesis by simp
qed


lemma handle_ui_aim_opacity:
  "handle_ui e s = Inr (s', r) \<Longrightarrow> aim_opacity s' = aim_opacity s"
  by (cases e) (auto simp: handler_defs toggle_point_visibility_def py_setitem_def
                   split: option.splits if_splits)

text \<open>
  C26. With twelve visibility flags, the arrangement dialog shows twelve check boxes
  in index order; box \<open>i\<close> is labelled with the hour \<open>i + 1\<close> and checked exactly
  when point \<open>i\<close> is visible.
\<close>

theorem open_point_arrangement_wf:
  assumes "length (point_visibility s) = 12"
  shows "open_point_arrangement s =
           Inr (map (\<lambda>i. \<lparr>checkbox_index = i, checkbox_hour = i + 1,
                          checkbox_checked = point_visibility s ! i\<rparr>) [0..<12])"
proof -
  have "map (\<lambda>i. case py_getitem (point_visibility s) i of
                    Inl e \<Rightarrow> Inl e
                  | Inr b \<Rightarrow> Inr \<lparr>checkbox_index = i, checkbox_hour = i + 1,
                                 checkbox_checked = b\<rparr>) [0..<12]
        = map (\<lambda>i. Inr \<lparr>checkbox_index = i, checkbox_hour = i + 1,
                     checkbox_checked = point_visibility s ! i\<rparr>) [0..<12]"
    using assms by (intro map_cong) auto
  then show ?thesis
    by (simp only: open_point_arrangement_def py_all_map_Inr)
qed

theorem open_point_arrangement_wf_witness:
  "open_point_arrangement default_settings =
     Inr (map (\<lambda>i. \<lparr>checkbox_index = i, checkbox_hour = i + 1, checkbox_checked = True\<rparr>) [0..<12])"
  using open_point_arrangement_wf [of default_settings] by simp

end
