(* ===== verification/Renderer.thy ===== *)
theory Renderer
  imports Settings Clock
begin

unbundle bit_operations_syntax

text \<open>
  The Overlay Renderer, class \<open>PyQtOverlayWithAim\<close> of src/dhonvtool.py
  (lines 32--90). The window is a record of its geometry, its window flags and
  its native extended style; \<open>make_window_click_through\<close> ORs the layered and
  transparent bits into that 32-bit style. \<open>paintEvent\<close> is the list of drawing
  commands the method issues on its \<open>QPainter\<close>, in order, and the settings it
  leaves behind: the loop over the clock positions sets the alpha of the global
  \<open>point_color\<close> in place, because \<open>point_color_with_opacity\<close> is the same object.
  Indexing \<open>point_visibility[i]\<close> raises \<open>IndexError\<close> on a short list; the
  exception leaves \<open>paintEvent\<close>, so the result is \<open>py_error + \<dots>\<close>.
\<close>

subsection \<open>The window\<close>

definition WS_EX_LAYERED :: "32 word" where
  "WS_EX_LAYERED = 0x80000"

definition WS_EX_TRANSPARENT :: "32 word" where
  "WS_EX_TRANSPARENT = 0x20"

definition make_window_click_through :: "32 word \<Rightarrow> 32 word" where
  "make_window_click_through ex_style = ex_style OR WS_EX_LAYERED OR WS_EX_TRANSPARENT"

datatype window_flag =
    FramelessWindowHint | WindowStaysOnTopHint | Tool
  | WA_TranslucentBackground | NoFocus

record overlay =
  win_x :: int
  win_y :: int
  win_w :: int
  win_h :: int
  win_flags :: "window_flag list"
  win_ex_style :: "32 word"

text \<open>
  \<open>PyQtOverlayWithAim(rect)\<close> with \<open>rect = (x, y, w, h)\<close>: \<open>setGeometry(*rect)\<close>,
  the flags and attributes, then the native style read by \<open>GetWindowLong\<close>
  (the argument \<open>ex_style\<close>) written back with the two click-through bits.
\<close>

definition PyQtOverlayWithAim :: "int \<times> int \<times> int \<times> int \<Rightarrow> 32 word \<Rightarrow> overlay" where
  "PyQtOverlayWithAim rect ex_style =
     (case rect of (x, y, w, h) \<Rightarrow>
       \<lparr>win_x = x, win_y = y, win_w = w, win_h = h,
        win_flags = [FramelessWindowHint, WindowStaysOnTopHint, Tool,
                     WA_TranslucentBackground, NoFocus],
        win_ex_style = make_window_click_through ex_style\<rparr>)"

subsection \<open>Painting\<close>

datatype pen = NoPen | Pen qcolor int

datatype brush = NoBrush | SolidBrush qcolor

datatype draw_cmd =
    DrawRect pen brush int int int int
  | DrawLine pen int int int int
  | DrawEllipse pen brush int int int int

text \<open>The red frame: \<open>QPen(QColor(255, 0, 0))\<close> of width 5, no brush.\<close>

definition border_cmd :: "overlay \<Rightarrow> draw_cmd" where
  "border_cmd w = DrawRect (Pen (QColor 255 0 0 255) 5) NoBrush 0 0 (win_w w - 1) (win_h w - 1)"

definition crosshair_cmds :: "overlay \<Rightarrow> settings \<Rightarrow> draw_cmd list" where
  "crosshair_cmds w s =
     (let crosshair_pen = Pen (aim_color s) (aim_thickness s);
          center_x = win_w w div 2; center_y = win_h w div 2
      in [DrawLine crosshair_pen (center_x - aim_length s) center_y
            (center_x + aim_length s) center_y,
          DrawLine crosshair_pen center_x (center_y - aim_length s)
            center_x (center_y + aim_length s)])"

text \<open>One iteration of the loop over \<open>enumerate(angles)\<close>.\<close>

fun paint_points :: "int \<Rightarrow> int \<Rightarrow> (nat \<times> int) list \<Rightarrow> settings \<Rightarrow>
                       py_error + draw_cmd list \<times> settings" where
  "paint_points center_x center_y [] s = Inr ([], s)"
| "paint_points center_x center_y ((i, angle) # rest) s =
     (case py_getitem (point_visibility s) i of
        Inl e \<Rightarrow> Inl e
      | Inr visible \<Rightarrow>
          (if \<not> visible then paint_points center_x center_y rest s
           else
             (let point_x = center_x + fst (point_offset angle);
                  point_y = center_y - snd (point_offset angle);
                  point_color_with_opacity = setAlpha (point_color s) (point_opacity s);
                  s' = s\<lparr>point_color := point_color_with_opacity\<rparr>;
                  cmd = DrawEllipse NoPen (SolidBrush point_color_with_opacity)
                          (point_x - point_size s) (point_y - point_size s)
                          (point_size s * 2) (point_size s * 2)
              in case paint_points center_x center_y rest s' of
                   Inl e \<Rightarrow> Inl e
                 | Inr (cmds, s'') \<Rightarrow> Inr (cmd # cmds, s''))))"

definition paintEvent :: "overlay \<Rightarrow> settings \<Rightarrow> py_error + draw_cmd list \<times> settings" where
  "paintEvent w s =
     (case paint_points (win_w w div 2) (win_h w div 2) (enumerate 0 angles) s of
        Inl e \<Rightarrow> Inl e
      | Inr (points, s') \<Rightarrow> Inr (border_cmd w # crosshair_cmds w s @ points, s'))"

subsection \<open>The frame as a specification\<close>

text \<open>
  What a frame shows, stated without the loop: the frame, the crosshair, and one
  filled circle per visible index, in index order; and the settings after it,
  with the alpha of \<open>point_color\<close> overwritten when at least one point was drawn.
\<close>

definition point_cmd :: "int \<Rightarrow> int \<Rightarrow> settings \<Rightarrow> int \<Rightarrow> draw_cmd" where
  "point_cmd cx cy s angle =
     DrawEllipse NoPen (SolidBrush (setAlpha (point_color s) (point_opacity s)))
       (cx + fst (point_offset angle) - point_size s) (cy - snd (point_offset angle) - point_size s)
       (point_size s * 2) (point_size s * 2)"

definition visible_indices :: "settings \<Rightarrow> nat list" where
  "visible_indices s = filter (\<lambda>i. point_visibility s ! i) [0..<12]"

definition point_alpha_applied :: "settings \<Rightarrow> settings" where
  "point_alpha_applied s = s\<lparr>point_color := setAlpha (point_color s) (point_opacity s)\<rparr>"

definition frame_points :: "overlay \<Rightarrow> settings \<Rightarrow> nat list \<Rightarrow> draw_cmd list" where
  "frame_points w s is = map (\<lambda>i. point_cmd (win_w w div 2) (win_h w div 2) s (angles ! i)) is"

definition painted_settings :: "settings \<Rightarrow> settings" where
  "painted_settings s = (if visible_indices s = [] then s else point_alpha_applied s)"

fun fill_color :: "draw_cmd \<Rightarrow> qcolor option" where
  "fill_color (DrawRect _ (SolidBrush c) _ _ _ _) = Some c"
| "fill_color (DrawEllipse _ (SolidBrush c) _ _ _ _) = Some c"
| "fill_color _ = None"

fun line_color :: "draw_cmd \<Rightarrow> qcolor option" where
  "line_color (DrawLine (Pen c _) _ _ _ _) = Some c"
| "line_color _ = None"

text \<open>
  The spec's view of the points: filled circles with centre, radius and colour.
  \<open>disc_of\<close> reads a circle back from an outline-free filled ellipse whose
  bounding box is a square of even side; \<open>spec_discs\<close> lists the circles the
  spec asks for, one per visible index, at radius 100 from the centre.
\<close>

record disc =
  disc_cx :: int
  disc_cy :: int
  disc_r :: int
  disc_color :: qcolor

fun disc_of :: "draw_cmd \<Rightarrow> disc option" where
  "disc_of (DrawEllipse NoPen (SolidBrush c) x y w h) =
     (if w = h \<and> even w then Some \<lparr>disc_cx = x + w div 2, disc_cy = y + h div 2, disc_r = w div 2, disc_color = c\<rparr>
      else None)"
| "disc_of _ = None"

definition spec_discs :: "overlay \<Rightarrow> settings \<Rightarrow> disc list" where
  "spec_discs w s =
     map (\<lambda>i. \<lparr>disc_cx = win_w w div 2 + fst (point_offset (angles ! i)),
              disc_cy = win_h w div 2 - snd (point_offset (angles ! i)),
              disc_r = point_size s,
              disc_color = setAlpha (point_color s) (point_opacity s)\<rparr>)
       (visible_indices s)"

subsection \<open>Properties of the renderer\<close>

text \<open>
  C15. \<open>make_window_click_through\<close> sets both the layered and the transparent bit of
  the extended style, keeps every other bit of the style it read, and applying it
  again changes nothing, so re-applying it to a recreated window is harmless.
\<close>

theorem click_through_style:
  "make_window_click_through ex AND (WS_EX_LAYERED OR WS_EX_TRANSPARENT)
     = WS_EX_LAYERED OR WS_EX_TRANSPARENT
   \<and> make_window_click_through ex AND NOT (WS_EX_LAYERED OR WS_EX_TRANSPARENT)
     = ex AND NOT (WS_EX_LAYERED OR WS_EX_TRANSPARENT)
   \<and> make_window_click_through (make_window_click_through ex) = make_window_click_through ex"
proof (intro conjI)
  show "make_window_click_through ex AND (WS_EX_LAYERED OR WS_EX_TRANSPARENT)
          = WS_EX_LAYERED OR WS_EX_TRANSPARENT"
    by (simp add: make_window_click_through_def bit_eq_iff bit_simps)
  show "make_window_click_through ex AND NOT (WS_EX_LAYERED OR WS_EX_TRANSPARENT)
          = ex AND NOT (WS_EX_LAYERED OR WS_EX_TRANSPARENT)"
    by (simp add: make_window_click_through_def bit_eq_iff bit_simps) auto
  show "make_window_click_through (make_window_click_through ex) = make_window_click_through ex"
    by (simp add: make_window_click_through_def ac_simps)
qed

lemma point_alpha_applied_fields [simp]:
  "point_visibility (point_alpha_applied s) = point_visibility s"
  "point_alpha_applied (point_alpha_applied s) = point_alpha_applied s"
  "point_cmd cx cy (point_alpha_applied s) a = point_cmd cx cy s a"
  by (simp_all add: point_alpha_applied_def point_cmd_def)

lemma paint_points_Inr:
  assumes "\<forall>(j, a) \<in> set ps. j < length (point_visibility s)"
  shows "paint_points cx cy ps s =
           Inr (map (\<lambda>(j, a). point_cmd cx cy s a) (filter (\<lambda>(j, a). point_visibility s ! j) ps),
                if \<exists>(j, a) \<in> set ps. point_visibility s ! j then point_alpha_applied s else s)"
  using assms
proof (induction ps arbitrary: s)
  case Nil
  then show ?case by simp
next
  case (Cons p ps)
  obtain i a where p: "p = (i, a)" by fastforce
  show ?case
  proof (cases "point_visibility s ! i")
    case False
    with Cons p show ?thesis by auto
  next
    case True
    have "paint_points cx cy ps (point_alpha_applied s) =
            Inr (map (\<lambda>(j, a). point_cmd cx cy s a) (filter (\<lambda>(j, a). point_visibility s ! j) ps),
                 point_alpha_applied s)"
      using Cons.IH [of "point_alpha_applied s"] Cons.prems by auto
    with True Cons.prems p show ?thesis
      by (auto simp: point_alpha_applied_def point_cmd_def Let_def)
  qed
qed

lemma paint_points_Inl:
  assumes "\<exists>(j, a) \<in> set ps. length (point_visibility s) \<le> j"
  shows "paint_points cx cy ps s = Inl IndexError"
  using assms
proof (induction ps arbitrary: s)
  case Nil
  then show ?case by simp
next
  case (Cons p ps)
  obtain i a where p: "p = (i, a)" by fastforce
  show ?case
  proof (cases "length (point_visibility s) \<le> i")
    case True
    with p show ?thesis by simp
  next
    case False
    then have "\<exists>(j, a) \<in> set ps. length (point_visibility s) \<le> j"
      using Cons.prems p by auto
    then have "paint_points cx cy ps s' = Inl IndexError"
      if "point_visibility s' = point_visibility s" for s'
      using Cons.IH that by auto
    with False p show ?thesis
      by (auto simp: Let_def)
  qed
qed

lemma enumerate_angles: "enumerate 0 angles = map (\<lambda>j. (j, angles ! j)) [0..<12]"
  by (simp add: enumerate_eq_zip list_eq_iff_nth_eq)

lemma paintEvent_spec:
  assumes "12 \<le> length (point_visibility s)"
  shows "paintEvent w s =
           Inr (border_cmd w # crosshair_cmds w s @ frame_points w s (visible_indices s),
                painted_settings s)"
proof -
  have ok: "\<forall>(j, a) \<in> set (enumerate 0 angles). j < length (point_visibility s)"
    using assms by (auto simp: enumerate_angles)
  have "filter (\<lambda>(j, a). point_visibility s ! j) (enumerate 0 angles)
          = map (\<lambda>j. (j, angles ! j)) (visible_indices s)"
    by (simp add: enumerate_angles visible_indices_def filter_map o_def)
  moreover have "(\<exists>(j, a) \<in> set (enumerate 0 angles). point_visibility s ! j)
                   \<longleftrightarrow> visible_indices s \<noteq> []"
    by (auto simp: enumerate_angles visible_indices_def filter_empty_conv)
  ultimately show ?thesis
    using paint_points_Inr [OF ok]
    by (simp add: paintEvent_def frame_points_def painted_settings_def)
qed

lemma paintEvent_Inr_length:
  assumes "paintEvent w s = Inr r"
  shows "12 \<le> length (point_visibility s)"
proof (rule ccontr)
  assume "\<not> 12 \<le> length (point_visibility s)"
  then have "\<exists>(j, a) \<in> set (enumerate 0 angles). length (point_visibility s) \<le> j"
    by (auto simp: enumerate_angles)
  then have "paintEvent w s = Inl IndexError"
    by (simp add: paintEvent_def paint_points_Inl)
  with assms show False by simp
qed

lemma paintEvent_Inr_spec:
  assumes "paintEvent w s = Inr (cmds, s')"
  shows "cmds = border_cmd w # crosshair_cmds w s @ frame_points w s (visible_indices s)
         \<and> s' = painted_settings s"
  using assms paintEvent_spec [OF paintEvent_Inr_length [OF assms]] by simp

text \<open>
  C16. \<open>paintEvent\<close> fails exactly when the visibility list has fewer than twelve
  flags: the loop then reads \<open>point_visibility[i]\<close> past its end and raises
  \<open>IndexError\<close>; with twelve or more flags it always draws a frame.
\<close>

theorem paintEvent_error:
  "paintEvent w s = Inl e \<longleftrightarrow> length (point_visibility s) < 12 \<and> e = IndexError"
proof (cases "12 \<le> length (point_visibility s)")
  case True
  then show ?thesis by (simp add: paintEvent_spec)
next
  case False
  then have "\<exists>(j, a) \<in> set (enumerate 0 angles). length (point_visibility s) \<le> j"
    by (auto simp: enumerate_angles)
  with False show ?thesis
    by (auto simp: paintEvent_def paint_points_Inl)
qed

theorem paintEvent_error_witness:
  "paintEvent (PyQtOverlayWithAim (100, 100, 300, 200) 0)
     (default_settings\<lparr>point_visibility := [True, False, True]\<rparr>) = Inl IndexError"
  using paintEvent_error [of "PyQtOverlayWithAim (100, 100, 300, 200) 0"
      "default_settings\<lparr>point_visibility := [True, False, True]\<rparr>" IndexError]
  by simp

text \<open>
  C11. In every frame, each filled shape has alpha \<open>point_opacity\<close> and each line is
  drawn in \<open>aim_color\<close> itself, so the crosshair's opacity is the alpha stored in
  \<open>aim_color\<close>: 0 is fully transparent, 255 opaque.
\<close>

theorem paint_opacity:
  assumes "paintEvent w s = Inr (cmds, s')"
  shows "(\<forall>c \<in> set cmds. \<forall>col. fill_color c = Some col \<longrightarrow> alpha col = point_opacity s)
         \<and> (\<forall>c \<in> set cmds. \<forall>col. line_color c = Some col \<longrightarrow> col = aim_color s)"
proof -
  have "cmds = border_cmd w # crosshair_cmds w s @ frame_points w s (visible_indices s)"
    using paintEvent_Inr_spec [OF assms] by simp
  then show ?thesis
    by (auto simp: border_cmd_def crosshair_cmds_def frame_points_def point_cmd_def Let_def)
qed

theorem paint_opacity_witness:
  "\<exists>cmds s'. paintEvent (PyQtOverlayWithAim (100, 100, 300, 200) 0) default_settings = Inr (cmds, s')
     \<and> list_all (\<lambda>c. case fill_color c of None \<Rightarrow> True | Some col \<Rightarrow> alpha col = 255) cmds
     \<and> list_all (\<lambda>c. case line_color c of None \<Rightarrow> True | Some col \<Rightarrow> col = QColor 0 0 255 255) cmds"
proof -
  obtain cmds s' where e:
    "paintEvent (PyQtOverlayWithAim (100, 100, 300, 200) 0) default_settings = Inr (cmds, s')"
    using paintEvent_spec [of default_settings] by simp
  from paint_opacity [OF e] e show ?thesis
    by (auto simp: list_all_iff split: option.splits)
qed

text \<open>
  C19. Painting writes to the settings: when at least one point is visible, the
  alpha of the global \<open>point_color\<close> becomes \<open>point_opacity\<close>, because
  \<open>point_color_with_opacity\<close> aliases it; no other setting changes.
\<close>

theorem paint_writes_point_alpha:
  assumes "paintEvent w s = Inr (cmds, s')"
  shows "point_color s' = (if visible_indices s = [] then point_color s
                           else setAlpha (point_color s) (point_opacity s))
         \<and> s'\<lparr>point_color := point_color s\<rparr> = s"
proof -
  have "s' = painted_settings s"
    using paintEvent_Inr_spec [OF assms] by simp
  then show ?thesis
    by (simp add: painted_settings_def point_alpha_applied_def)
qed

theorem paint_writes_point_alpha_witness:
  "\<exists>cmds s'. paintEvent (PyQtOverlayWithAim (100, 100, 300, 200) 0)
       (default_settings\<lparr>point_opacity := 40\<rparr>) = Inr (cmds, s')
     \<and> point_color s' = QColor 0 255 0 40"
proof -
  obtain cmds s' where e:
    "paintEvent (PyQtOverlayWithAim (100, 100, 300, 200) 0) (default_settings\<lparr>point_opacity := 40\<rparr>)
       = Inr (cmds, s')"
    using paintEvent_spec [of "default_settings\<lparr>point_opacity := 40\<rparr>"] by simp
  from paint_writes_point_alpha [OF e] e show ?thesis
    by (auto simp: visible_indices_def setAlpha_def QColor_def)
qed

text \<open>
  C27. Refinement of the spec's point contract: the filled shapes of every frame,
  read back as circles, are exactly the circles of the spec, in index order: for
  each visible index a circle of radius \<open>point_size\<close> centred at the clock
  position, in \<open>point_color\<close> with alpha \<open>point_opacity\<close>, with no outline.
\<close>

theorem paint_refines_discs:
  assumes "paintEvent w s = Inr (cmds, s')"
  shows "List.map_filter disc_of cmds = spec_discs w s"
proof -
  have "cmds = border_cmd w # crosshair_cmds w s @ frame_points w s (visible_indices s)"
    using paintEvent_Inr_spec [OF assms] by simp
  then show ?thesis
    by (simp add: List.map_filter_def spec_discs_def border_cmd_def crosshair_cmds_def Let_def
                  frame_points_def point_cmd_def o_def)
qed
theorem paint_refines_discs_witness:
  "\<exists>cmds s'. paintEvent (PyQtOverlayWithAim (100, 100, 300, 200) 0) default_settings = Inr (cmds, s')
     \<and> List.map_filter disc_of cmds = spec_discs (PyQtOverlayWithAim (100, 100, 300, 200) 0) default_settings"
proof -
  obtain cmds s' where e:
    "paintEvent (PyQtOverlayWithAim (100, 100, 300, 200) 0) default_settings = Inr (cmds, s')"
    using paintEvent_spec [of default_settings] by simp
  with paint_refines_discs [OF e] show ?thesis by blast
qed

end
