(* ===== verification/Picker.thy ===== *)
theory Picker
  imports Prelude
begin

text \<open>
  The Window Locator and the Hover Picker of src/dhonvtool.py: \<open>get_window_rect\<close>
  (lines 23--29) and the second, effective definition of \<open>draw_window_border\<close>
  with its closures \<open>update_hover\<close> and \<open>on_click\<close> (lines 287--335; the first
  definition at lines 274--285 is rebound by it and never runs).

  The operating system is seen through \<open>os_view\<close>: the answer of
  \<open>WindowFromPoint\<close> at the pointer and of \<open>GetWindowRect\<close> for each handle, each of
  which may raise. The picker's state is the closure state (\<open>hover_hwnd\<close>,
  \<open>update_running\<close>), whether the Tk window exists, whether an
  \<open>overlay.after(50, update_hover)\<close> is queued, and what the window and its canvas
  show. Each callback returns the new state and the list of Tk calls it made.
  A session is the direct first call of \<open>update_hover\<close> followed by the queued
  ticks; the Tk loop delivers a tick only while one is queued.
\<close>

datatype os_error = OSError

record os_view =
  window_at :: "os_error + hwnd"
  rect_of :: "hwnd \<Rightarrow> os_error + rect"

definition get_window_rect :: "os_view \<Rightarrow> hwnd \<Rightarrow> rect option" where
  "get_window_rect os hwnd = (case rect_of os hwnd of Inl _ \<Rightarrow> None | Inr r \<Rightarrow> Some r)"

text \<open>Python truth value of \<open>hover_hwnd\<close>: \<open>None\<close> and the null handle 0 are false.\<close>

fun hwnd_truthy :: "hwnd option \<Rightarrow> bool" where
  "hwnd_truthy None = False"
| "hwnd_truthy (Some h) = (h \<noteq> 0)"

datatype canvas_item = Rectangle int int int int string int

datatype tk_effect =
    Geometry int int int int
  | CanvasDeleteAll
  | CreateRectangle int int int int string int
  | After int

record picker =
  update_running :: bool
  hover_hwnd :: "hwnd option"
  tick_pending :: bool
  overlay_exists :: bool
  overlay_geometry :: "(int \<times> int \<times> int \<times> int) option"
  canvas_items :: "canvas_item list"

text \<open>\<open>overlay = tk.Tk()\<close>, \<open>hover_hwnd = None\<close>, \<open>update_running = True\<close>.\<close>

definition picker_init :: picker where
  "picker_init =
     \<lparr>update_running = True, hover_hwnd = None, tick_pending = False,
      overlay_exists = True, overlay_geometry = None, canvas_items = []\<rparr>"

text \<open>The outline drawn over a newly hovered window.\<close>

definition highlight :: "rect \<Rightarrow> picker \<Rightarrow> picker \<times> tk_effect list" where
  "highlight r p =
     (case r of (left, top', right, bottom) \<Rightarrow>
       (p\<lparr>overlay_geometry := Some (right - left, bottom - top', left, top'),
          canvas_items := [Rectangle 0 0 (right - left) (bottom - top') ''blue'' 3]\<rparr>,
        [Geometry (right - left) (bottom - top') left top', CanvasDeleteAll,
         CreateRectangle 0 0 (right - left) (bottom - top') ''blue'' 3]))"

definition update_hover :: "os_view \<Rightarrow> picker \<Rightarrow> picker \<times> tk_effect list" where
  "update_hover os p =
     (if \<not> update_running p \<or> \<not> overlay_exists p then (p\<lparr>tick_pending := False\<rparr>, [])
      else
        (case window_at os of
           Inl _ \<Rightarrow> (p\<lparr>tick_pending := False\<rparr>, [])
         | Inr hwnd \<Rightarrow>
             (let (p1, eff) =
                (if Some hwnd \<noteq> hover_hwnd p then
                   (let p' = p\<lparr>hover_hwnd := Some hwnd\<rparr> in
                    case get_window_rect os hwnd of
                      None \<Rightarrow> (p', [])
                    | Some r \<Rightarrow> highlight r p')
                 else (p, []))
              in (p1\<lparr>tick_pending := True\<rparr>, eff @ [After 50]))))"

text \<open>
  \<open>on_click\<close> reads and writes the global \<open>selected_rect\<close>, passed in and returned;
  the call \<open>create_red_border_with_buttons(selected_rect)\<close> that ends it is the
  application's next step (theory \<open>App\<close>).
\<close>

definition on_click :: "os_view \<Rightarrow> rect option \<Rightarrow> picker \<Rightarrow> picker \<times> rect option" where
  "on_click os selected_rect p =
     (let p1 = p\<lparr>update_running := False\<rparr>;
          sel = (if hwnd_truthy (hover_hwnd p1) then
                   (case hover_hwnd p1 of
                      None \<Rightarrow> selected_rect
                    | Some hwnd \<Rightarrow>
                        (case get_window_rect os hwnd of
                           Some r \<Rightarrow> Some r
                         | None \<Rightarrow> selected_rect))
                 else selected_rect)
      in (p1\<lparr>overlay_exists := False\<rparr>, sel))"

definition draw_window_border :: "os_view \<Rightarrow> picker \<times> tk_effect list" where
  "draw_window_border os = update_hover os picker_init"

fun run_ticks :: "os_view list \<Rightarrow> picker \<Rightarrow> picker \<times> tk_effect list" where
  "run_ticks [] p = (p, [])"
| "run_ticks (os # oss) p =
     (if \<not> tick_pending p then (p, [])
      else (let (p1, e1) = update_hover os p; (p2, e2) = run_ticks oss p1 in (p2, e1 @ e2)))"

definition hover_session :: "os_view \<Rightarrow> os_view list \<Rightarrow> picker \<times> tk_effect list" where
  "hover_session os oss =
     (let (p1, e1) = draw_window_border os; (p2, e2) = run_ticks oss p1 in (p2, e1 @ e2))"

subsection \<open>Observing a session\<close>

text \<open>
  \<open>hwnd_changes\<close> counts the positions of a handle sequence that differ from the
  handle before, the first compared with \<open>None\<close> as \<open>hover_hwnd\<close> starts;
  \<open>pointer_view\<close> is an operating system whose calls all succeed.
\<close>

fun hwnd_changes :: "hwnd option \<Rightarrow> hwnd list \<Rightarrow> nat" where
  "hwnd_changes prev [] = 0"
| "hwnd_changes prev (h # hs) = (if Some h \<noteq> prev then 1 else 0) + hwnd_changes (Some h) hs"

fun is_redraw :: "tk_effect \<Rightarrow> bool" where
  "is_redraw (CreateRectangle _ _ _ _ _ _) = True"
| "is_redraw _ = False"

definition pointer_view :: "(hwnd \<Rightarrow> rect) \<Rightarrow> hwnd \<Rightarrow> os_view" where
  "pointer_view rects h = \<lparr>window_at = Inr h, rect_of = (\<lambda>w. Inr (rects w))\<rparr>"

inductive picker_reach :: "picker \<Rightarrow> bool" where
  start: "picker_reach (fst (draw_window_border os))"
| tick: "picker_reach p \<Longrightarrow> tick_pending p \<Longrightarrow> picker_reach (fst (update_hover os p))"
| click: "picker_reach p \<Longrightarrow> overlay_exists p \<Longrightarrow> picker_reach (fst (on_click os sel p))"

definition picker_inv :: "picker \<Rightarrow> bool" where
  "picker_inv p \<longleftrightarrow>
     update_running p = overlay_exists p
     \<and> canvas_items p = (case overlay_geometry p of
                           None \<Rightarrow> []
                         | Some (w, h, x, y) \<Rightarrow> [Rectangle 0 0 w h ''blue'' 3])"

subsection \<open>Lemmas\<close>

lemma highlight_fields [simp]:
  "update_running (fst (highlight r p)) = update_running p"
  "overlay_exists (fst (highlight r p)) = overlay_exists p"
  "hover_hwnd (fst (highlight r p)) = hover_hwnd p"
  "length (filter is_redraw (snd (highlight r p))) = 1"
  by (cases r; simp add: highlight_def)+

lemma update_hover_pointer:
  assumes "update_running p" "overlay_exists p"
  obtains p' eff where "update_hover (pointer_view rects h) p = (p', eff)"
    "update_running p'" "overlay_exists p'" "tick_pending p'" "hover_hwnd p' = Some h"
    "length (filter is_redraw eff) = (if Some h \<noteq> hover_hwnd p then 1 else 0)"
proof -
  let ?os = "pointer_view rects h"
  show ?thesis
  proof (cases "Some h \<noteq> hover_hwnd p")
    case True
    obtain q e where q: "highlight (rects h) (p\<lparr>hover_hwnd := Some h\<rparr>) = (q, e)" by fastforce
    have "update_hover ?os p = (q\<lparr>tick_pending := True\<rparr>, e @ [After 50])"
      using assms True q by (simp add: update_hover_def pointer_view_def get_window_rect_def)
    moreover have "update_running q" "overlay_exists q" "hover_hwnd q = Some h"
      "length (filter is_redraw e) = 1"
      using highlight_fields [of "rects h" "p\<lparr>hover_hwnd := Some h\<rparr>"] q assms by simp_all
    ultimately show ?thesis using that True by simp
  next
    case False
    then have "update_hover ?os p = (p\<lparr>tick_pending := True\<rparr>, [After 50])"
      using assms by (simp add: update_hover_def pointer_view_def)
    then show ?thesis using that False assms by simp
  qed
qed

lemma run_ticks_Cons_pending:
  "tick_pending p \<Longrightarrow> run_ticks (os # oss) p =
     (fst (run_ticks oss (fst (update_hover os p))),
      snd (update_hover os p) @ snd (run_ticks oss (fst (update_hover os p))))"
  by (simp split: prod.split)

lemma hover_session_eq:
  "hover_session os oss =
     (fst (run_ticks oss (fst (draw_window_border os))),
      snd (draw_window_border os) @ snd (run_ticks oss (fst (draw_window_border os))))"
  by (simp add: hover_session_def split: prod.split)

lemma run_ticks_redraws:
  assumes "update_running p" "overlay_exists p" "tick_pending p"
  shows "length (filter is_redraw (snd (run_ticks (map (pointer_view rects) hs) p)))
           = hwnd_changes (hover_hwnd p) hs"
  using assms
proof (induction hs arbitrary: p)
  case Nil
  then show ?case by simp
next
  case (Cons h hs)
  obtain p' eff where u: "update_hover (pointer_view rects h) p = (p', eff)"
    "update_running p'" "overlay_exists p'" "tick_pending p'" "hover_hwnd p' = Some h"
    "length (filter is_redraw eff) = (if Some h \<noteq> hover_hwnd p then 1 else 0)"
    using update_hover_pointer [OF Cons.prems(1,2)] by blast
  have "length (filter is_redraw (snd (run_ticks (map (pointer_view rects) hs) p')))
          = hwnd_changes (Some h) hs"
    using Cons.IH [OF u(2-4)] u(5) by simp
  with u(1,6) Cons.prems(3) show ?case
    by (simp del: run_ticks.simps(2) add: run_ticks_Cons_pending)
qed

lemma run_ticks_idle: "\<not> tick_pending p \<Longrightarrow> run_ticks oss p = (p, [])"
  by (cases oss) simp_all

lemma update_hover_stopped:
  "\<not> update_running p \<Longrightarrow> update_hover os p = (p\<lparr>tick_pending := False\<rparr>, [])"
  by (simp add: update_hover_def)

lemma run_ticks_stopped:
  "\<not> update_running p \<Longrightarrow> snd (run_ticks oss p) = []"
proof (induction oss arbitrary: p)
  case Nil
  then show ?case by simp
next
  case (Cons os oss)
  then show ?case
    by (cases "tick_pending p")
       (simp_all del: run_ticks.simps(2)
          add: run_ticks_Cons_pending update_hover_stopped run_ticks_idle)
qed

lemma on_click_fields [simp]:
  "update_running (fst (on_click os sel p)) = False"
  "overlay_exists (fst (on_click os sel p)) = False"
  "tick_pending (fst (on_click os sel p)) = tick_pending p"
  "canvas_items (fst (on_click os sel p)) = canvas_items p"
  "overlay_geometry (fst (on_click os sel p)) = overlay_geometry p"
  by (simp_all add: on_click_def Let_def)

lemma picker_inv_upd [simp]:
  "picker_inv (p\<lparr>hover_hwnd := h\<rparr>) = picker_inv p"
  "picker_inv (p\<lparr>tick_pending := b\<rparr>) = picker_inv p"
  by (simp_all add: picker_inv_def)

lemma picker_inv_highlight: "highlight r p = (q, e) \<Longrightarrow> picker_inv p \<Longrightarrow> picker_inv q"
  by (cases r) (auto simp: highlight_def picker_inv_def)

lemma picker_inv_update_hover: "picker_inv p \<Longrightarrow> picker_inv (fst (update_hover os p))"
  by (auto simp: update_hover_def Let_def dest: picker_inv_highlight
           split: sum.splits option.splits prod.splits)

subsection \<open>Properties of the hover picker\<close>

text \<open>
  C2. While every system call succeeds, the number of highlight outlines a session
  draws is the number of times the handle under the pointer differs from the one
  before it, the first handle counting as a change from \<open>None\<close>: for the handles
  A, A, B, B, A the outline is drawn three times, once for the first A and once
  for each of the transitions A to B and B to A.
\<close>

theorem hover_redraws:
  "length (filter is_redraw (snd (hover_session (pointer_view rects h) (map (pointer_view rects) hs))))
     = hwnd_changes None (h # hs)"
proof -
  have init: "update_running picker_init" "overlay_exists picker_init" "hover_hwnd picker_init = None"
    by (simp_all add: picker_init_def)
  obtain p' eff where u: "update_hover (pointer_view rects h) picker_init = (p', eff)"
    "update_running p'" "overlay_exists p'" "tick_pending p'" "hover_hwnd p' = Some h"
    "length (filter is_redraw eff) = 1"
    using update_hover_pointer [OF init(1,2)] init(3) by (metis option.distinct(1))
  show ?thesis
    using run_ticks_redraws [OF u(2-4)] u(1,5,6)
    by (simp add: hover_session_eq draw_window_border_def)
qed

theorem hover_redraws_example:
  "length (filter is_redraw (snd (hover_session (pointer_view (\<lambda>h. (0, 0, 640, 480)) 1)
      (map (pointer_view (\<lambda>h. (0, 0, 640, 480))) [1, 2, 2, 1])))) = 3"
  using hover_redraws [of "\<lambda>h. (0, 0, 640, 480)" 1 "[1, 2, 2, 1]"] by simp

text \<open>
  C5. After the confirming click, a tick that the Tk loop still delivers returns
  at once without drawing or rescheduling, and no sequence of later ticks draws
  anything: \<open>update_running\<close> is false for good.
\<close>

theorem click_stops_polling:
  "update_hover os' (fst (on_click os sel p))
     = ((fst (on_click os sel p))\<lparr>tick_pending := False\<rparr>, [])
   \<and> snd (run_ticks oss (fst (on_click os sel p))) = []"
  by (simp add: update_hover_stopped run_ticks_stopped)

text \<open>
  C17. An exception from \<open>WindowFromPoint\<close> (or from reading the pointer) ends the
  polling for good: the handler catches it, does not reschedule, and no later tick
  is delivered, although \<open>update_running\<close> is still true and a click still selects.
\<close>

theorem window_query_error_stops_polling:
  assumes "window_at os = Inl e"
  shows "update_hover os p = (p\<lparr>tick_pending := False\<rparr>, [])
         \<and> run_ticks oss (p\<lparr>tick_pending := False\<rparr>) = (p\<lparr>tick_pending := False\<rparr>, [])"
  using assms by (simp add: update_hover_def run_ticks_idle)

theorem window_query_error_stops_polling_witness:
  "update_hover \<lparr>window_at = Inl OSError, rect_of = (\<lambda>h. Inl OSError)\<rparr> picker_init
     = (picker_init\<lparr>tick_pending := False\<rparr>, [])
   \<and> run_ticks [\<lparr>window_at = Inr 7, rect_of = (\<lambda>h. Inr (0, 0, 10, 10))\<rparr>]
       (picker_init\<lparr>tick_pending := False\<rparr>) = (picker_init\<lparr>tick_pending := False\<rparr>, [])"
  using window_query_error_stops_polling
      [of "\<lparr>window_at = Inl OSError, rect_of = (\<lambda>h. Inl OSError)\<rparr>" OSError picker_init
          "[\<lparr>window_at = Inr 7, rect_of = (\<lambda>h. Inr (0, 0, 10, 10))\<rparr>]"]
  by simp

text \<open>
  C22. In every state the picker reaches, the Tk window exists exactly while
  \<open>update_running\<close> holds, and the canvas shows exactly one blue outline of the
  window's own size once the window has been moved over a target, none before.
\<close>

theorem picker_reach_inv:
  assumes "picker_reach p"
  shows "picker_inv p"
  using assms
proof (induction rule: picker_reach.induct)
  case (start os)
  have "picker_inv picker_init"
    by (simp add: picker_inv_def picker_init_def)
  then show ?case
    unfolding draw_window_border_def by (rule picker_inv_update_hover)
next
  case (tick p os)
  from tick.IH show ?case by (rule picker_inv_update_hover)
next
  case (click p os sel)
  then show ?case by (simp add: picker_inv_def)
qed

theorem picker_reach_inv_witness:
  "picker_reach (fst (draw_window_border \<lparr>window_at = Inr 7, rect_of = (\<lambda>h. Inr (5, 5, 105, 55))\<rparr>))
   \<and> picker_inv (fst (draw_window_border \<lparr>window_at = Inr 7, rect_of = (\<lambda>h. Inr (5, 5, 105, 55))\<rparr>))"
  using picker_reach.start picker_reach_inv [OF picker_reach.start] by blast

text \<open>
  C23. A tick that finds a new window under the pointer whose rectangle the OS
  returns moves the Tk window onto that rectangle, clears the canvas and draws one
  blue outline of width 3 of the window's size, then reschedules itself.
\<close>

theorem hover_highlights_new_window:
  assumes "update_running p" "overlay_exists p" "window_at os = Inr h" "Some h \<noteq> hover_hwnd p"
    "rect_of os h = Inr (left, top', right, bottom)"
  shows "update_hover os p =
           (p\<lparr>hover_hwnd := Some h, overlay_geometry := Some (right - left, bottom - top', left, top'),
              canvas_items := [Rectangle 0 0 (right - left) (bottom - top') ''blue'' 3],
              tick_pending := True\<rparr>,
            [Geometry (right - left) (bottom - top') left top', CanvasDeleteAll,
             CreateRectangle 0 0 (right - left) (bottom - top') ''blue'' 3, After 50])"
  using assms by (simp add: update_hover_def get_window_rect_def highlight_def)

theorem hover_highlights_new_window_witness:
  "update_hover \<lparr>window_at = Inr 7, rect_of = (\<lambda>h. Inr (10, 20, 110, 70))\<rparr> picker_init =
     (picker_init\<lparr>hover_hwnd := Some 7, overlay_geometry := Some (110 - 10, 70 - 20, 10, 20),
        canvas_items := [Rectangle 0 0 (110 - 10) (70 - 20) ''blue'' 3], tick_pending := True\<rparr>,
      [Geometry (110 - 10) (70 - 20) 10 20, CanvasDeleteAll,
       CreateRectangle 0 0 (110 - 10) (70 - 20) ''blue'' 3, After 50])"
  by (rule hover_highlights_new_window) (simp_all add: picker_init_def)

text \<open>
  C24. When \<open>GetWindowRect\<close> fails for a newly hovered window, the tick still records
  the handle, so later ticks over the same window never ask again: the old outline
  stays where it was until the pointer moves to another window.
\<close>

theorem rect_failure_not_retried:
  assumes "update_running p" "overlay_exists p" "window_at os = Inr h" "Some h \<noteq> hover_hwnd p"
    "rect_of os h = Inl e" "window_at os' = Inr h"
  shows "update_hover os p = (p\<lparr>hover_hwnd := Some h, tick_pending := True\<rparr>, [After 50])
         \<and> update_hover os' (p\<lparr>hover_hwnd := Some h, tick_pending := True\<rparr>)
             = (p\<lparr>hover_hwnd := Some h, tick_pending := True\<rparr>, [After 50])"
  using assms by (simp add: update_hover_def get_window_rect_def)

theorem rect_failure_not_retried_witness:
  "update_hover \<lparr>window_at = Inr 7, rect_of = (\<lambda>h. Inl OSError)\<rparr> picker_init
     = (picker_init\<lparr>hover_hwnd := Some 7, tick_pending := True\<rparr>, [After 50])
   \<and> update_hover \<lparr>window_at = Inr 7, rect_of = (\<lambda>h. Inr (0, 0, 10, 10))\<rparr>
       (picker_init\<lparr>hover_hwnd := Some 7, tick_pending := True\<rparr>)
     = (picker_init\<lparr>hover_hwnd := Some 7, tick_pending := True\<rparr>, [After 50])"
  by (rule rect_failure_not_retried [where h = 7 and e = OSError]) (simp_all add: picker_init_def)

end
