(* ===== verification/App.thy ===== *)
theory App
  imports SettingsUI Renderer Picker
begin

text \<open>
  The Control Panel and the composition of the program (src/dhonvtool.py, lines
  339--366): \<open>create_red_border_with_buttons\<close>, \<open>restart_selection\<close> and the
  entry point. The application state holds the module globals (\<open>settings\<close> and
  \<open>selected_rect\<close>), the phase the program is in (picking a window, showing the
  overlay with its control panel, exited, or aborted by an exception that left a
  Qt slot or \<open>paintEvent\<close>), whether \<open>red_border.update()\<close> has asked for a
  repaint that has not happened yet, and the last frame painted.

  \<open>app_step\<close> is one event of the Tk and Qt event loops: a queued hover tick, the
  confirming click, a repaint, a settings control, or the reselect button.
  \<open>None\<close> means the event cannot occur in that state. \<open>app_reach\<close> is the set of
  states reachable from the start of the program.
\<close>

datatype control_button = ReselectButton | SettingsButton

record control_panel =
  cp_width :: int
  cp_height :: int
  cp_x :: int
  cp_y :: int
  cp_buttons :: "control_button list"

datatype phase =
    Picking picker
  | Overlaid overlay control_panel
  | Exited
  | Aborted py_error

record app =
  app_settings :: settings
  selected_rect :: "rect option"
  phase :: phase
  repaint_pending :: bool
  last_frame :: "draw_cmd list option"

text \<open>
  \<open>create_red_border_with_buttons(rect)\<close>: with no rectangle it returns and the
  program ends; otherwise the overlay over the rectangle, shown (which asks for a
  first paint), and the control panel \<open>200x100\<close> at \<open>(right + 10, top)\<close>.
  \<open>ex_style\<close> is what \<open>GetWindowLong\<close> returns for the new Qt window.
\<close>

definition create_red_border_with_buttons :: "rect option \<Rightarrow> 32 word \<Rightarrow> app \<Rightarrow> app" where
  "create_red_border_with_buttons rect ex_style a =
     (case rect of
        None \<Rightarrow> a\<lparr>phase := Exited\<rparr>
      | Some (left, top', right, bottom) \<Rightarrow>
          a\<lparr>phase := Overlaid (PyQtOverlayWithAim (left, top', right - left, bottom - top') ex_style)
                     \<lparr>cp_width = 200, cp_height = 100, cp_x = right + 10, cp_y = top',
                      cp_buttons = [ReselectButton, SettingsButton]\<rparr>,
            repaint_pending := True, last_frame := None\<rparr>)"

text \<open>\<open>restart_selection\<close>: destroy the control panel, close the overlay, pick again.\<close>

definition restart_selection :: "os_view \<Rightarrow> app \<Rightarrow> app" where
  "restart_selection os a =
     a\<lparr>phase := Picking (fst (draw_window_border os)), repaint_pending := False,
       last_frame := None\<rparr>"

definition app_init :: "os_view \<Rightarrow> app" where
  "app_init os =
     \<lparr>app_settings = default_settings, selected_rect = None,
      phase = Picking (fst (draw_window_border os)), repaint_pending = False,
      last_frame = None\<rparr>"

datatype app_event =
    Tick os_view
  | Click os_view "32 word"
  | Paint
  | Ui ui_event
  | Reselect os_view

fun app_step :: "app_event \<Rightarrow> app \<Rightarrow> app option" where
  "app_step (Tick os) a =
     (case phase a of
        Picking p \<Rightarrow>
          (if tick_pending p then Some (a\<lparr>phase := Picking (fst (update_hover os p))\<rparr>) else None)
      | _ \<Rightarrow> None)"
| "app_step (Click os ex_style) a =
     (case phase a of
        Picking p \<Rightarrow>
          (if overlay_exists p then
             (case on_click os (selected_rect a) p of
                (p', sel) \<Rightarrow>
                  Some (create_red_border_with_buttons sel ex_style
                          (a\<lparr>selected_rect := sel, phase := Picking p'\<rparr>)))
           else None)
      | _ \<Rightarrow> None)"
| "app_step Paint a =
     (case phase a of
        Overlaid w cp \<Rightarrow>
          (case paintEvent w (app_settings a) of
             Inl e \<Rightarrow> Some (a\<lparr>phase := Aborted e\<rparr>)
           | Inr (cmds, s') \<Rightarrow>
               Some (a\<lparr>app_settings := s', repaint_pending := False, last_frame := Some cmds\<rparr>))
      | _ \<Rightarrow> None)"
| "app_step (Ui e) a =
     (case phase a of
        Overlaid w cp \<Rightarrow>
          (if ui_event_ok e then
             (case handle_ui e (app_settings a) of
                Inl err \<Rightarrow> Some (a\<lparr>phase := Aborted err\<rparr>)
              | Inr (s', requested) \<Rightarrow>
                  Some (a\<lparr>app_settings := s', repaint_pending := repaint_pending a \<or> requested\<rparr>))
           else None)
      | _ \<Rightarrow> None)"
| "app_step (Reselect os) a =
     (case phase a of
        Overlaid w cp \<Rightarrow> Some (restart_selection os a)
      | _ \<Rightarrow> None)"

inductive app_reach :: "app \<Rightarrow> bool" where
  init: "app_reach (app_init os)"
| step: "app_reach a \<Longrightarrow> app_step e a = Some a' \<Longrightarrow> app_reach a'"

subsection \<open>Invariant and scenarios\<close>

definition overlay_matches :: "rect \<Rightarrow> overlay \<Rightarrow> control_panel \<Rightarrow> bool" where
  "overlay_matches r w cp \<longleftrightarrow>
     (case r of (left, top', right, bottom) \<Rightarrow>
        win_x w = left \<and> win_y w = top' \<and> win_w w = right - left \<and> win_h w = bottom - top'
        \<and> cp_x cp = right + 10 \<and> cp_y cp = top' \<and> cp_width cp = 200 \<and> cp_height cp = 100)"

definition app_inv :: "app \<Rightarrow> bool" where
  "app_inv a \<longleftrightarrow>
     settings_wf (app_settings a) \<and> aim_opacity (app_settings a) = 255
     \<and> (repaint_pending a \<longrightarrow> (\<exists>w cp. phase a = Overlaid w cp))
     \<and> (case phase a of
          Overlaid w cp \<Rightarrow> (\<exists>r. selected_rect a = Some r \<and> overlay_matches r w cp)
        | Aborted e \<Rightarrow> False
        | _ \<Rightarrow> True)"

text \<open>
  Two views of the operating system used by the scenarios below: the pointer over
  a window with handle 42 at \<open>(100, 100, 400, 300)\<close>, and the pointer over no
  window, where \<open>WindowFromPoint\<close> returns the null handle and \<open>GetWindowRect\<close>
  fails.
\<close>

definition os_over_window :: os_view where
  "os_over_window =
     \<lparr>window_at = Inr 42, rect_of = (\<lambda>h. if h = 42 then Inr (100, 100, 400, 300) else Inl OSError)\<rparr>"

definition os_over_nothing :: os_view where
  "os_over_nothing = \<lparr>window_at = Inr 0, rect_of = (\<lambda>h. Inl OSError)\<rparr>"

definition click_over_window_state :: app where
  "click_over_window_state =
     create_red_border_with_buttons (Some (100, 100, 400, 300)) 0
       ((app_init os_over_window)\<lparr>selected_rect := Some (100, 100, 400, 300),
          phase := Picking (fst (on_click os_over_window None (fst (draw_window_border os_over_window))))\<rparr>)"

subsection \<open>Lemmas\<close>

lemmas fixture_simps = os_over_window_def os_over_nothing_def app_init_def draw_window_border_def
  update_hover_def picker_init_def get_window_rect_def highlight_def on_click_def
  create_red_border_with_buttons_def restart_selection_def PyQtOverlayWithAim_def

lemma painted_settings_wf:
  "settings_wf s \<Longrightarrow> settings_wf (painted_settings s)"
  "aim_opacity (painted_settings s) = aim_opacity s"
  by (auto simp: painted_settings_def point_alpha_applied_def settings_wf_def)

lemma app_inv_click:
  assumes "app_inv a" "app_step (Click os ex) a = Some a'"
  shows "app_inv a'"
proof -
  obtain p where p: "phase a = Picking p" "overlay_exists p"
    using assms(2) by (auto split: phase.splits if_splits)
  obtain p' sel where oc: "on_click os (selected_rect a) p = (p', sel)" by fastforce
  have a': "a' = create_red_border_with_buttons sel ex (a\<lparr>selected_rect := sel, phase := Picking p'\<rparr>)"
    using assms(2) p oc by simp
  show ?thesis
    using assms(1) p(1) unfolding a' app_inv_def
    by (auto simp: create_red_border_with_buttons_def overlay_matches_def
             PyQtOverlayWithAim_def split: option.splits prod.splits)
qed

lemma app_inv_paint:
  assumes "app_inv a" "app_step Paint a = Some a'"
  shows "app_inv a'"
proof -
  obtain w cp where ph: "phase a = Overlaid w cp"
    using assms(2) by (auto split: phase.splits)
  have "12 \<le> length (point_visibility (app_settings a))"
    using assms(1) by (simp add: app_inv_def settings_wf_def)
  then have "a' = a\<lparr>app_settings := painted_settings (app_settings a), repaint_pending := False,
                   last_frame := Some (border_cmd w # crosshair_cmds w (app_settings a)
                      @ frame_points w (app_settings a) (visible_indices (app_settings a)))\<rparr>"
    using assms(2) ph by (simp add: paintEvent_spec)
  then show ?thesis
    using assms(1) ph by (simp add: app_inv_def painted_settings_wf)
qed

lemma app_inv_ui:
  assumes "app_inv a" "app_step (Ui e) a = Some a'"
  shows "app_inv a'"
proof -
  obtain w cp where ph: "phase a = Overlaid w cp" and ok: "ui_event_ok e"
    using assms(2) by (auto split: phase.splits if_splits)
  have wf: "settings_wf (app_settings a)"
    using assms(1) by (simp add: app_inv_def)
  from handle_ui_no_error [OF wf ok]
  obtain s' r where h1: "handle_ui e (app_settings a) = Inr (s', r)"
    by auto
  have h: "handle_ui e (app_settings a) = Inr (s', r)" "settings_wf s'"
    using h1 handle_ui_keeps_wf [OF wf ok h1] by simp_all
  then have "a' = a\<lparr>app_settings := s', repaint_pending := repaint_pending a \<or> r\<rparr>"
    using assms(2) ph ok by simp
  then show ?thesis
    using assms(1) ph h handle_ui_aim_opacity [OF h(1)] by (simp add: app_inv_def)
qed

lemma app_inv_step:
  assumes "app_inv a" "app_step e a = Some a'"
  shows "app_inv a'"
proof (cases e)
  case (Tick os)
  with assms show ?thesis by (auto simp: app_inv_def split: phase.splits if_splits)
next
  case (Click os ex)
  with assms show ?thesis by (simp add: app_inv_click)
next
  case Paint
  with assms show ?thesis by (simp add: app_inv_paint)
next
  case (Ui u)
  with assms show ?thesis by (simp add: app_inv_ui)
next
  case (Reselect os)
  with assms show ?thesis
    by (auto simp: app_inv_def restart_selection_def split: phase.splits)
qed

lemma app_reach_inv: "app_reach a \<Longrightarrow> app_inv a"
proof (induction rule: app_reach.induct)
  case (init os)
  show ?case
    by (simp add: app_inv_def app_init_def settings_wf_def color_ok_def channel_ok_def)
next
  case (step a e a')
  from step.IH step.hyps(2) show ?case by (rule app_inv_step)
qed

lemma click_over_window:
  "app_step (Click os_over_window 0) (app_init os_over_window) = Some click_over_window_state"
  by (simp add: click_over_window_state_def fixture_simps Let_def)

lemma click_over_window_reach: "app_reach click_over_window_state"
  by (rule app_reach.step [OF app_reach.init click_over_window])

lemma app_step_click_eq:
  assumes "phase a = Picking p" "overlay_exists p"
  shows "app_step (Click os ex) a =
           Some (create_red_border_with_buttons (snd (on_click os (selected_rect a) p)) ex
                   (a\<lparr>selected_rect := snd (on_click os (selected_rect a) p),
                      phase := Picking (fst (on_click os (selected_rect a) p))\<rparr>))"
  using assms by (simp split: prod.split)

lemma update_hover_running [simp]:
  "update_running (fst (update_hover os p)) = update_running p"
  "overlay_exists (fst (update_hover os p)) = overlay_exists p"
  by (auto simp: update_hover_def Let_def highlight_def split: sum.splits option.splits prod.splits)

subsection \<open>Properties of the application\<close>

text \<open>
  C1. In every state the program reaches, the settings are in the ranges the
  dialogs allow (colour channels and opacities in \<open>[0, 255]\<close>, twelve visibility
  flags, sizes within their sliders' ranges), and no exception has aborted it.
\<close>

theorem reachable_settings_wf:
  assumes "app_reach a"
  shows "settings_wf (app_settings a) \<and> (\<forall>e. phase a \<noteq> Aborted e)"
  using app_reach_inv [OF assms] by (auto simp: app_inv_def split: phase.splits)

theorem reachable_settings_wf_witness:
  "app_reach (app_init os_over_window) \<and> settings_wf (app_settings (app_init os_over_window))"
  using reachable_settings_wf [OF app_reach.init [of os_over_window]] app_reach.init by simp

text \<open>
  C12. The aim opacity slider always opens at 255, whatever opacity the crosshair
  has: \<open>change_aim_opacity\<close> sets the alpha of \<open>aim_color\<close> but never the global
  \<open>aim_opacity\<close> the slider is initialised from.
\<close>

theorem aim_opacity_slider_stuck:
  assumes "app_reach a"
  shows "slider_value (aim_opacity_slider (open_aim_settings (app_settings a))) = 255"
  using app_reach_inv [OF assms] by (simp add: app_inv_def QSlider_def)

theorem aim_opacity_slider_stuck_witness:
  "\<exists>a. app_reach a \<and> alpha (aim_color (app_settings a)) = 100
       \<and> slider_value (aim_opacity_slider (open_aim_settings (app_settings a))) = 255"
proof -
  define a2 where "a2 = click_over_window_state\<lparr>app_settings :=
     (app_settings click_over_window_state)\<lparr>aim_color := setAlpha (aim_color default_settings) 100\<rparr>,
     repaint_pending := True\<rparr>"
  have s2: "app_step (Ui (AimOpacityMoved 100)) click_over_window_state = Some a2"
    by (simp add: a2_def click_over_window_state_def fixture_simps handler_defs)
  have r2: "app_reach a2"
    using app_reach.step [OF click_over_window_reach s2] .
  have "alpha (aim_color (app_settings a2)) = 100"
    by (simp add: a2_def click_over_window_state_def fixture_simps)
  with r2 aim_opacity_slider_stuck [OF r2] show ?thesis by blast
qed

text \<open>
  C3. A click while the picker tracks no window (the handle is \<open>None\<close> or the null
  handle) on the first selection creates no overlay: the program ends, with no
  selection recorded.
\<close>

theorem click_without_window_exits:
  assumes "phase a = Picking p" "overlay_exists p" "\<not> hwnd_truthy (hover_hwnd p)"
    "selected_rect a = None"
  shows "app_step (Click os ex) a = Some (a\<lparr>phase := Exited\<rparr>)"
  using app_step_click_eq [OF assms(1,2)] assms(3,4)
  by (simp del: app_step.simps add: on_click_def Let_def create_red_border_with_buttons_def)

theorem click_without_window_exits_witness:
  "app_step (Click os_over_nothing 0) (app_init os_over_nothing)
     = Some ((app_init os_over_nothing)\<lparr>phase := Exited\<rparr>)"
  by (rule click_without_window_exits [where p = "fst (draw_window_border os_over_nothing)"])
     (simp_all add: fixture_simps)

text \<open>
  C4. After a reselect, a click over no window does not end the program: the global
  \<open>selected_rect\<close> still holds the previous selection, and the overlay and control
  panel are created again over that old rectangle.
\<close>

theorem reselect_click_keeps_old_rect:
  assumes "phase a = Picking p" "overlay_exists p" "\<not> hwnd_truthy (hover_hwnd p)"
    "selected_rect a = Some (left, top', right, bottom)"
  shows "\<exists>a' cp. app_step (Click os ex) a = Some a'
           \<and> selected_rect a' = Some (left, top', right, bottom)
           \<and> phase a' = Overlaid (PyQtOverlayWithAim (left, top', right - left, bottom - top') ex) cp"
  using app_step_click_eq [OF assms(1,2)] assms(3,4)
  by (simp del: app_step.simps add: on_click_def Let_def create_red_border_with_buttons_def)

theorem reselect_click_keeps_old_rect_witness:
  "app_reach (restart_selection os_over_nothing click_over_window_state)
   \<and> (\<exists>a' cp. app_step (Click os_over_nothing 0) (restart_selection os_over_nothing click_over_window_state) = Some a'
         \<and> selected_rect a' = Some (100, 100, 400, 300)
         \<and> phase a' = Overlaid (PyQtOverlayWithAim (100, 100, 400 - 100, 300 - 100) 0) cp)"
proof
  have "app_step (Reselect os_over_nothing) click_over_window_state
          = Some (restart_selection os_over_nothing click_over_window_state)"
    by (simp add: click_over_window_state_def create_red_border_with_buttons_def)
  then show "app_reach (restart_selection os_over_nothing click_over_window_state)"
    by (rule app_reach.step [OF click_over_window_reach])
  show "\<exists>a' cp. app_step (Click os_over_nothing 0) (restart_selection os_over_nothing click_over_window_state) = Some a'
         \<and> selected_rect a' = Some (100, 100, 400, 300)
         \<and> phase a' = Overlaid (PyQtOverlayWithAim (100, 100, 400 - 100, 300 - 100) 0) cp"
    by (rule reselect_click_keeps_old_rect [where p = "fst (draw_window_border os_over_nothing)"])
       (simp_all add: fixture_simps click_over_window_state_def)
qed



text \<open>
  C20. In every reachable state that shows the overlay, the overlay covers exactly
  the selected rectangle and the 200 by 100 control panel sits ten pixels to the
  right of it, level with its top.
\<close>

theorem overlay_placement:
  assumes "app_reach a" "phase a = Overlaid w cp"
  shows "\<exists>left top' right bottom. selected_rect a = Some (left, top', right, bottom)
           \<and> win_x w = left \<and> win_y w = top' \<and> win_w w = right - left \<and> win_h w = bottom - top'
           \<and> cp_x cp = right + 10 \<and> cp_y cp = top' \<and> cp_width cp = 200 \<and> cp_height cp = 100"
  using app_reach_inv [OF assms(1)] assms(2)
  by (auto simp: app_inv_def overlay_matches_def)

theorem overlay_placement_witness:
  "\<exists>w cp. phase click_over_window_state = Overlaid w cp \<and> win_w w = 300 \<and> cp_x cp = 410"
proof -
  obtain w cp where ph: "phase click_over_window_state = Overlaid w cp"
    by (simp add: click_over_window_state_def create_red_border_with_buttons_def)
  from overlay_placement [OF click_over_window_reach ph] ph show ?thesis
    by (auto simp: click_over_window_state_def create_red_border_with_buttons_def)
qed


end
