(* ===== verification/Spec2Isabelle.thy ===== *)
theory Spec2Isabelle
  imports App
begin

text \<open>
  \<^bold>\<open>A verification development of dhonvtool\<close> (src/dhonvtool.py).

  \<^bold>\<open>The program.\<close> A Windows utility in one Python file. At start it runs a Tk hover
  picker (\<open>draw_window_border\<close>): a 50 ms self-rescheduling callback
  \<open>update_hover\<close> asks the OS for the window under the pointer and moves an outlined
  Tk window over it; a click (\<open>on_click\<close>) stops the polling, stores the hovered
  window's rectangle in the global \<open>selected_rect\<close> and calls
  \<open>create_red_border_with_buttons\<close>, which creates a click-through Qt overlay
  (\<open>PyQtOverlayWithAim\<close>) over the rectangle and a Tk control panel beside it. The
  overlay's \<open>paintEvent\<close> draws a red frame, a crosshair and up to twelve points at
  clock positions from the module-level settings globals. The control panel's
  "settings" button opens three Qt dialogs whose sliders, colour pickers and check
  boxes call handlers that write the globals and ask the overlay to repaint; its
  "reselect" button destroys both windows and runs the picker again.

  \<^bold>\<open>Theories, in import order.\<close>
  \<^item> \<open>Prelude\<close>: window handles and rectangles, Python's \<open>int()\<close> on floats
    (\<open>py_int\<close>, truncation towards zero), list reads and writes raising
    \<open>IndexError\<close> (\<open>py_getitem\<close>, \<open>py_setitem\<close>), a loop stopping at the first
    exception (\<open>py_all\<close>), Qt's clamp \<open>qBound\<close>.
  \<^item> \<open>Settings\<close> (lines 10--20): \<open>QColor\<close> as a record of four channels, the
    eight overlay globals as the record \<open>settings\<close>, their start values
    \<open>default_settings\<close>, and the range invariant \<open>settings_wf\<close>.
  \<^item> \<open>SettingsUI\<close> (lines 93--271): the dialogs \<open>open_settings\<close>,
    \<open>open_aim_settings\<close>, \<open>open_point_settings\<close>, \<open>open_point_arrangement\<close> (the
    slider ranges and initial values, the check boxes), the handlers
    \<open>change_aim_length\<close> \<dots> \<open>toggle_point_visibility\<close>, each returning the new
    settings and whether it called \<open>red_border.update()\<close>, and \<open>handle_ui\<close>, the
    dispatch of one control event through its slider's clamp.
  \<^item> \<open>Clock\<close> (lines 77--85): \<open>angles\<close>, \<open>radians\<close> and \<open>point_offset\<close>, the
    offset \<open>(int(100 cos t), int(100 sin t))\<close> of a point from the centre, with real
    trigonometry; \<open>offset_table\<close> is its executable form.
  \<^item> \<open>Renderer\<close> (lines 32--90): the overlay window record, the window style word
    \<open>make_window_click_through\<close> (a \<open>32 word\<close>, OR of \<open>WS_EX_LAYERED\<close> and
    \<open>WS_EX_TRANSPARENT\<close>), and \<open>paintEvent\<close> as the list of drawing commands
    issued plus the settings it leaves (\<open>border_cmd\<close>, \<open>crosshair_cmds\<close>, the loop
    \<open>paint_points\<close> over \<open>enumerate(angles)\<close>).
  \<^item> \<open>Picker\<close> (lines 23--29 and 287--335): \<open>get_window_rect\<close>, the picker state
    (closure variables, Tk window, queued timer, canvas), \<open>update_hover\<close> and
    \<open>on_click\<close> returning the Tk calls they make, runs of ticks
    (\<open>run_ticks\<close>, \<open>hover_session\<close>) and the reachable picker states.
  \<^item> \<open>App\<close> (lines 339--366): the application state (globals, phase, pending
    repaint, last frame), \<open>create_red_border_with_buttons\<close>,
    \<open>restart_selection\<close>, the start state \<open>app_init\<close>, one step of the event loops
    \<open>app_step\<close> and the reachable states \<open>app_reach\<close>.
  \<^item> This theory: properties that span the settings UI and the renderer.

  \<^bold>\<open>Interfaces.\<close> The operating system enters as data: \<open>os_view\<close> holds the result
  of \<open>WindowFromPoint\<close> at the pointer and of \<open>GetWindowRect\<close> for every handle, each
  a sum whose left side is the exception; a click also carries the style word
  \<open>GetWindowLong\<close> returns for the new Qt window. A colour dialog's answer is the
  argument of its handler (\<open>None\<close>: cancelled). Qt's repaint request is the boolean
  a handler returns; \<open>app_step Paint\<close> is the paint that follows.

  \<^bold>\<open>What is proved.\<close> Invariants: every reachable application state keeps the
  settings in range and never aborts (\<open>App.reachable_settings_wf\<close>), places the
  overlay and control panel over the selection (\<open>App.overlay_placement\<close>); every
  reachable picker state keeps its canvas in step with its window
  (\<open>Picker.picker_reach_inv\<close>); the handlers keep \<open>settings_wf\<close>
  (\<open>SettingsUI.handle_ui_wf\<close>). Liveness: a pending repaint is always served by the
  next paint (\<open>App.pending_repaint_served\<close>). Functional behaviour: the frame
  drawn, its colours and opacities, the write to \<open>point_color\<close> that painting
  makes, the effect of a toggle, the check boxes of the arrangement dialog, the
  outline a tick draws over a new window and the number of outlines a run of ticks
  draws, the repaint requests of the handlers, the spec's worked example. Errors:
  \<open>IndexError\<close> in \<open>paintEvent\<close> and \<open>toggle_point_visibility\<close>, an OS exception
  stopping the polling, a failed \<open>GetWindowRect\<close> never retried for the same
  window, a click over no window. Refinement: read back as circles, the filled
  shapes of a frame are the spec's circles of radius \<open>point_size\<close>
  (\<open>Renderer.paint_refines_discs\<close>). Equivalence: the trigonometric offsets equal
  the integer table.
  Bounds: the points lie 99 to 100 pixels from the centre; the style word keeps
  all other bits. Divergences from the spec shown by theorems: index 0 is one
  o'clock, not twelve (\<open>Clock.angle_of_index\<close>); a reselect over no window reuses
  the old rectangle (\<open>App.reselect_click_keeps_old_rect\<close>); the aim opacity slider
  always reopens at 255 (\<open>App.aim_opacity_slider_stuck\<close>).

  \<^bold>\<open>Not modelled.\<close> Widget layout, titles and labels; the toolkits' own event
  dispatch beyond the order of callbacks; the nesting of the Tk main loops (each
  phase of \<open>app_step\<close> stands for the loop that runs in it); the second
  \<open>QApplication\<close> that \<open>create_red_border_with_buttons\<close> constructs on every
  reselect; IEEE rounding of \<open>math.cos\<close> and \<open>math.sin\<close> (the model uses exact
  reals, under which three of the twelve offsets differ by one pixel from what
  CPython computes); logging by \<open>print\<close>. No loop of the program is unbounded in
  the model: polling is a run over a finite list of ticks, each tick total.
\<close>

definition toggled_off :: "nat \<Rightarrow> settings \<Rightarrow> settings" where
  "toggled_off i s = s\<lparr>point_visibility := (point_visibility s)[i := False]\<rparr>"

lemma visible_indices_toggled_off:
  assumes "length (point_visibility s) = 12" and "i < 12"
  shows "visible_indices (toggled_off i s) = removeAll i (visible_indices s)"
proof -
  have "visible_indices (toggled_off i s) = filter (\<lambda>j. (point_visibility s)[i := False] ! j) [0..<12]"
    by (simp add: toggled_off_def visible_indices_def)
  also have "\<dots> = filter (\<lambda>j. point_visibility s ! j \<and> i \<noteq> j) [0..<12]"
    using assms by (intro filter_cong) (auto simp: nth_list_update split: if_splits)
  also have "\<dots> = removeAll i (visible_indices s)"
    by (simp add: visible_indices_def removeAll_filter_not_eq filter_filter)
  finally show ?thesis .
qed

lemma frame_parts_toggled_off [simp]:
  "crosshair_cmds w (toggled_off i s) = crosshair_cmds w s"
  "frame_points w (toggled_off i s) is = frame_points w s is"
  "length (point_visibility (toggled_off i s)) = length (point_visibility s)"
  by (simp_all add: toggled_off_def crosshair_cmds_def frame_points_def point_cmd_def)

text \<open>
  C6. Switching one visible point off in the arrangement dialog removes exactly
  that point's circle from the next frame: the frame, the crosshair and every other
  circle are drawn as before.
\<close>

theorem toggle_off_removes_point:
  assumes "length (point_visibility s) = 12" and "i < 12"
  shows "\<exists>s'. handle_ui (PointToggled i False) s = Inr (s', True)
           \<and> paintEvent w s = Inr (border_cmd w # crosshair_cmds w s
                                    @ frame_points w s (visible_indices s), painted_settings s)
           \<and> paintEvent w s' = Inr (border_cmd w # crosshair_cmds w s
                                    @ frame_points w s (removeAll i (visible_indices s)),
                                    painted_settings s')"
proof -
  have h: "handle_ui (PointToggled i False) s = Inr (toggled_off i s, True)"
    using assms by (simp add: toggle_point_visibility_Inr toggled_off_def)
  have "paintEvent w (toggled_off i s) =
          Inr (border_cmd w # crosshair_cmds w s @ frame_points w s (removeAll i (visible_indices s)),
               painted_settings (toggled_off i s))"
    using assms by (simp add: paintEvent_spec visible_indices_toggled_off)
  with h assms show ?thesis
    by (simp add: paintEvent_spec)
qed

theorem toggle_off_removes_point_witness:
  "\<exists>s'. handle_ui (PointToggled 3 False) default_settings = Inr (s', True)
     \<and> paintEvent (PyQtOverlayWithAim (100, 100, 300, 200) 0) s' =
         Inr (border_cmd (PyQtOverlayWithAim (100, 100, 300, 200) 0)
              # crosshair_cmds (PyQtOverlayWithAim (100, 100, 300, 200) 0) default_settings
              @ frame_points (PyQtOverlayWithAim (100, 100, 300, 200) 0) default_settings
                  [0, 1, 2, 4, 5, 6, 7, 8, 9, 10, 11],
              painted_settings s')"
proof -
  have v: "visible_indices default_settings = [0..<12]"
    by (simp add: visible_indices_def)
  have "removeAll 3 [0..<12] = [0, 1, 2, 4, 5, 6, 7, 8, 9, 10, 11::nat]"
    by (simp add: upt_rec)
  then show ?thesis
    using toggle_off_removes_point [of default_settings 3 "PyQtOverlayWithAim (100, 100, 300, 200) 0"]
    by (auto simp: v)
qed


end
